theory Spec2Isabelle
  imports Main
begin

section \<open>Python strings and integers\<close>

text \<open>
  Python strings are modelled as \<^typ>\<open>string\<close>, a list of characters with code points
  0 to 255; Python's unbounded \<open>int\<close> is \<^typ>\<open>int\<close>.  The interpreter's resource guards
  (memory, the optional cap on the number of digits of a decimal conversion) are outside
  the model.
\<close>

text \<open>\<open>str(n)\<close> for an integer: decimal digits, most significant first, a leading minus
  sign for a negative number.\<close>

definition digit_char :: "nat \<Rightarrow> char" where
  "digit_char d = char_of (48 + d)"

fun str_nat :: "nat \<Rightarrow> string" where
  "str_nat n = (if n < 10 then [digit_char n] else str_nat (n div 10) @ [digit_char (n mod 10)])"

declare str_nat.simps [simp del]

definition str_int :: "int \<Rightarrow> string" where
  "str_int i = (if i < 0 then CHR ''-'' # str_nat (nat (- i)) else str_nat (nat i))"

text \<open>\<open>sep.join(items)\<close>.\<close>

fun join :: "string \<Rightarrow> string list \<Rightarrow> string" where
  "join sep [] = []"
| "join sep [x] = x"
| "join sep (x # y # ys) = x @ sep @ join sep (y # ys)"

text \<open>Truth value of an optional string (\<open>str | None\<close>): \<open>None\<close> and the empty string
  are false.\<close>

fun truthy :: "string option \<Rightarrow> bool" where
  "truthy None = False"
| "truthy (Some s) = (s \<noteq> [])"

section \<open>GCP: free-tier limits and the validator (free\_tier.py)\<close>

text \<open>The frozen dataclass \<open>GCPFreeTierLimits\<close>; of its fields the validator reads the
  four below.\<close>

record GCPFreeTierLimits =
  free_machine_type :: string
  free_compute_regions :: "string list"
  free_standard_pd_gb :: int
  free_storage_regions :: "string list"

definition LIMITS :: GCPFreeTierLimits where
  "LIMITS = \<lparr> free_machine_type = ''e2-micro'',
              free_compute_regions = [''us-west1'', ''us-central1'', ''us-east1''],
              free_standard_pd_gb = 30,
              free_storage_regions = [''us-east1'', ''us-west1'', ''us-central1''] \<rparr>"

text \<open>The four messages of \<open>validate_proposed_config\<close>, as its f-strings build them.\<close>

definition machine_type_error :: "GCPFreeTierLimits \<Rightarrow> string \<Rightarrow> string" where
  "machine_type_error limits machine_type =
     ''ERROR: Machine type '' @ [CHR 0x27] @ machine_type @ [CHR 0x27] @ '' is not Always Free. ''
     @ ''Only '' @ [CHR 0x27] @ free_machine_type limits @ [CHR 0x27] @ '' is free. ''
     @ ''Set GCP_ALLOW_PAID_RESOURCES=true to override.''"

definition region_error :: "GCPFreeTierLimits \<Rightarrow> string \<Rightarrow> string" where
  "region_error limits region =
     ''ERROR: Region '' @ [CHR 0x27] @ region @ [CHR 0x27] @ '' is not Always Free for Compute Engine. ''
     @ ''Free regions: '' @ join '', '' (free_compute_regions limits) @ ''.''"

definition boot_disk_error :: "GCPFreeTierLimits \<Rightarrow> int \<Rightarrow> string" where
  "boot_disk_error limits boot_disk_size_gb =
     ''ERROR: Boot disk '' @ str_int boot_disk_size_gb @ '' GB exceeds Always Free cap ''
     @ ''of '' @ str_int (free_standard_pd_gb limits) @ '' GB standard PD.''"

definition storage_region_error :: "GCPFreeTierLimits \<Rightarrow> string \<Rightarrow> string" where
  "storage_region_error limits storage_region =
     ''ERROR: Cloud Storage region '' @ [CHR 0x27] @ storage_region @ [CHR 0x27] @ '' is not Always Free. ''
     @ ''Free regions: '' @ join '', '' (free_storage_regions limits) @ ''.''"

text \<open>\<open>validate_proposed_config\<close>: the local list \<open>errors\<close> is threaded through the four
  tests in the order of the source; \<open>errors.append(m)\<close> is \<open>errors @ [m]\<close>.\<close>

definition validate_proposed_config ::
  "string \<Rightarrow> string \<Rightarrow> int \<Rightarrow> string option \<Rightarrow> bool \<Rightarrow> string list" where
  "validate_proposed_config machine_type region boot_disk_size_gb storage_region allow_paid_resources =
     (let errors0 = []; limits = LIMITS in
      if \<not> allow_paid_resources then
        let errors1 = (if machine_type \<noteq> free_machine_type limits
                       then errors0 @ [machine_type_error limits machine_type] else errors0);
            errors2 = (if region \<notin> set (free_compute_regions limits)
                       then errors1 @ [region_error limits region] else errors1);
            errors3 = (if boot_disk_size_gb > free_standard_pd_gb limits
                       then errors2 @ [boot_disk_error limits boot_disk_size_gb] else errors2);
            errors4 = (case storage_region of
                         None \<Rightarrow> errors3
                       | Some s \<Rightarrow>
                           if s \<noteq> [] \<and> s \<notin> set (free_storage_regions limits)
                           then errors3 @ [storage_region_error limits s] else errors3)
        in errors4
      else errors0)"

text \<open>The four rules of the validator, read off the quota table: which inputs breach
  them.  A storage region counts as supplied when it is neither \<open>None\<close> nor empty.\<close>

definition breaks_machine_type :: "string \<Rightarrow> bool" where
  "breaks_machine_type machine_type = (machine_type \<noteq> ''e2-micro'')"

definition breaks_region :: "string \<Rightarrow> bool" where
  "breaks_region region = (region \<notin> {''us-west1'', ''us-central1'', ''us-east1''})"

definition breaks_boot_disk :: "int \<Rightarrow> bool" where
  "breaks_boot_disk boot_disk_size_gb = (30 < boot_disk_size_gb)"

fun breaks_storage_region :: "string option \<Rightarrow> bool" where
  "breaks_storage_region None = False"
| "breaks_storage_region (Some s) = (s \<noteq> [] \<and> s \<notin> {''us-east1'', ''us-west1'', ''us-central1''})"

definition is_error_entry :: "string \<Rightarrow> bool" where
  "is_error_entry e = (take 6 e = ''ERROR:'')"

section \<open>Python exceptions, \<open>int(s)\<close>, \<open>s.split(c)\<close> and indexing\<close>

datatype exn = IndexError | ValueError | ClickException string | Abort

text \<open>Sequencing of computations that may raise: the first exception ends the computation.\<close>

definition and_then :: "exn + 'a \<Rightarrow> ('a \<Rightarrow> exn + 'b) \<Rightarrow> exn + 'b" where
  "and_then m f = (case m of Inl e \<Rightarrow> Inl e | Inr x \<Rightarrow> f x)"

fun traverse :: "('a \<Rightarrow> exn + 'b) \<Rightarrow> 'a list \<Rightarrow> exn + 'b list" where
  "traverse f [] = Inr []"
| "traverse f (x # xs) =
     and_then (f x) (\<lambda>y. and_then (traverse f xs) (\<lambda>ys. Inr (y # ys)))"

text \<open>\<open>int(s)\<close> on a string: surrounding white space is dropped, then an optional sign, then
  decimal digits, where single underscores may stand between digits.  Anything else
  raises \<open>ValueError\<close> (\<open>None\<close> here).\<close>

definition is_space :: "char \<Rightarrow> bool" where
  "is_space c = ((of_char c :: nat) \<in> {9, 10, 11, 12, 13, 28, 29, 30, 31, 32, 133, 160})"

definition is_digit :: "char \<Rightarrow> bool" where
  "is_digit c = (48 \<le> (of_char c :: nat) \<and> (of_char c :: nat) \<le> 57)"

definition digit_val :: "char \<Rightarrow> nat" where
  "digit_val c = of_char c - 48"

definition strip :: "string \<Rightarrow> string" where
  "strip s = rev (dropWhile is_space (rev (dropWhile is_space s)))"

fun digits_rest :: "nat \<Rightarrow> string \<Rightarrow> nat option" where
  "digits_rest acc [] = Some acc"
| "digits_rest acc [c] = (if is_digit c then Some (10 * acc + digit_val c) else None)"
| "digits_rest acc (c # d # cs) =
     (if is_digit c then digits_rest (10 * acc + digit_val c) (d # cs)
      else if c = CHR ''_'' \<and> is_digit d then digits_rest (10 * acc + digit_val d) cs
      else None)"

fun digits :: "string \<Rightarrow> nat option" where
  "digits [] = None"
| "digits (c # cs) = (if is_digit c then digits_rest (digit_val c) cs else None)"

fun signed_digits :: "string \<Rightarrow> int option" where
  "signed_digits [] = None"
| "signed_digits (c # cs) =
     (if c = CHR ''-'' then map_option (\<lambda>n. - int n) (digits cs)
      else if c = CHR ''+'' then map_option int (digits cs)
      else map_option int (digits (c # cs)))"

definition py_int :: "string \<Rightarrow> int option" where
  "py_int s = signed_digits (strip s)"

definition int_of_str :: "string \<Rightarrow> exn + int" where
  "int_of_str s = (case py_int s of None \<Rightarrow> Inl ValueError | Some n \<Rightarrow> Inr n)"

text \<open>\<open>s.split(c)\<close> with a one-character separator: never empty, \<open>"".split("|") == [""]\<close>.\<close>

fun split :: "char \<Rightarrow> string \<Rightarrow> string list" where
  "split c [] = [[]]"
| "split c (x # xs) =
     (if x = c then [] # split c xs
      else (case split c xs of [] \<Rightarrow> [[x]] | w # ws \<Rightarrow> (x # w) # ws))"

text \<open>\<open>xs[k]\<close> for a constant index \<open>k \<ge> 0\<close>.\<close>

definition index :: "'a list \<Rightarrow> nat \<Rightarrow> exn + 'a" where
  "index xs k = (if k < length xs then Inr (xs ! k) else Inl IndexError)"

text \<open>\<open>int(v.split("|")[k])\<close> and \<open>v.split("|")[k]\<close>.\<close>

definition field :: "string \<Rightarrow> nat \<Rightarrow> exn + string" where
  "field v k = index (split CHR ''|'' v) k"

definition int_field :: "string \<Rightarrow> nat \<Rightarrow> exn + int" where
  "int_field v k = and_then (field v k) int_of_str"

section \<open>OCI: data model (cli.py)\<close>

definition FREE_TIER_MAX_AMD_INSTANCES :: int where "FREE_TIER_MAX_AMD_INSTANCES = 2"
definition FREE_TIER_MAX_ARM_OCPUS :: int where "FREE_TIER_MAX_ARM_OCPUS = 4"
definition FREE_TIER_MAX_ARM_MEMORY_GB :: int where "FREE_TIER_MAX_ARM_MEMORY_GB = 24"
definition FREE_TIER_MAX_STORAGE_GB :: int where "FREE_TIER_MAX_STORAGE_GB = 200"
definition FREE_TIER_MIN_BOOT_VOLUME_GB :: int where "FREE_TIER_MIN_BOOT_VOLUME_GB = 47"
definition FREE_TIER_MAX_ARM_INSTANCES :: int where "FREE_TIER_MAX_ARM_INSTANCES = 4"
definition FREE_TIER_MAX_VCNS :: int where "FREE_TIER_MAX_VCNS = 2"

text \<open>A \<open>dict[str, str]\<close> is the list of its items in insertion order; \<open>len(d)\<close> is the
  length of that list and \<open>d.values()\<close> its second components.\<close>

type_synonym dict = "(string \<times> string) list"

definition values_of :: "dict \<Rightarrow> string list" where
  "values_of d = map snd d"

record ExistingResources =
  vcns :: dict
  subnets :: dict
  internet_gateways :: dict
  route_tables :: dict
  security_lists :: dict
  amd_instances :: dict
  arm_instances :: dict
  boot_volumes :: dict
  block_volumes :: dict

text \<open>\<open>OciContext\<close> without its two opaque fields (\<open>config\<close>, \<open>signer\<close>), which the planner,
  the validator and the renderer of the variables file do not read.\<close>

record OciContext =
  tenancy_ocid :: string
  user_ocid :: "string option"
  region :: string
  availability_domain :: string
  ubuntu_x86_image_ocid :: "string option"
  ubuntu_arm_image_ocid :: "string option"

record PlannedConfig =
  amd_micro_instance_count :: int
  amd_micro_boot_volume_size_gb :: int
  amd_micro_hostnames :: "string list"
  amd_block_volume_size_gb :: int
  arm_flex_instance_count :: int
  arm_flex_ocpus_per_instance :: "int list"
  arm_flex_memory_per_instance :: "int list"
  arm_flex_boot_volume_size_gb :: "int list"
  arm_flex_hostnames :: "string list"
  arm_block_volume_sizes :: "int list"

text \<open>The part of the \<open>CloudBooterWorkflow\<close> object (\<open>self\<close>) that planning and validation
  read: the inventory and the context.\<close>

record CloudBooterWorkflow =
  resources :: ExistingResources
  oci_context :: "OciContext option"

section \<open>OCI: remaining allocation and the validator\<close>

definition available_resources :: "CloudBooterWorkflow \<Rightarrow> exn + (int \<times> int \<times> int \<times> int)" where
  "available_resources self =
     (let used_amd = int (length (amd_instances (resources self))) in
      and_then (traverse (\<lambda>v. int_field v 5) (values_of (arm_instances (resources self))))
        (\<lambda>ocpus.
      and_then (traverse (\<lambda>v. int_field v 6) (values_of (arm_instances (resources self))))
        (\<lambda>memory.
      and_then (traverse (\<lambda>v. int_field v 1) (values_of (boot_volumes (resources self))))
        (\<lambda>boots.
      and_then (traverse (\<lambda>v. int_field v 1) (values_of (block_volumes (resources self))))
        (\<lambda>blocks.
      let used_arm_ocpus = sum_list ocpus;
          used_arm_memory = sum_list memory;
          used_storage = 0 + sum_list boots + sum_list blocks
      in Inr (FREE_TIER_MAX_AMD_INSTANCES - used_amd,
              FREE_TIER_MAX_ARM_OCPUS - used_arm_ocpus,
              FREE_TIER_MAX_ARM_MEMORY_GB - used_arm_memory,
              FREE_TIER_MAX_STORAGE_GB - used_storage))))))"

text \<open>The quantities \<open>_validate_proposed_config\<close> computes from the plan.\<close>

definition proposed_arm_ocpus :: "PlannedConfig \<Rightarrow> int" where
  "proposed_arm_ocpus planned = sum_list (arm_flex_ocpus_per_instance planned)"

definition proposed_arm_memory :: "PlannedConfig \<Rightarrow> int" where
  "proposed_arm_memory planned = sum_list (arm_flex_memory_per_instance planned)"

definition proposed_storage :: "PlannedConfig \<Rightarrow> int" where
  "proposed_storage planned =
     amd_micro_instance_count planned * amd_micro_boot_volume_size_gb planned
     + sum_list (arm_flex_boot_volume_size_gb planned)
     + amd_micro_instance_count planned * amd_block_volume_size_gb planned
     + sum_list (arm_block_volume_sizes planned)"

definition amd_error :: "int \<Rightarrow> int \<Rightarrow> string" where
  "amd_error n available_amd =
     ''Cannot create '' @ str_int n @ '' AMD instances, only '' @ str_int available_amd @ '' available.''"

definition ocpu_error :: "int \<Rightarrow> int \<Rightarrow> string" where
  "ocpu_error n available_arm_ocpus =
     ''Cannot allocate '' @ str_int n @ '' ARM OCPUs, only '' @ str_int available_arm_ocpus @ '' available.''"

definition memory_error :: "int \<Rightarrow> int \<Rightarrow> string" where
  "memory_error n available_arm_memory =
     ''Cannot allocate '' @ str_int n @ ''GB ARM memory, only '' @ str_int available_arm_memory @ ''GB available.''"

definition storage_error :: "int \<Rightarrow> int \<Rightarrow> string" where
  "storage_error n available_storage =
     ''Cannot use '' @ str_int n @ ''GB storage, only '' @ str_int available_storage @ ''GB available.''"

definition vcn_error :: string where
  "vcn_error = ''Existing VCN count already exceeds free-tier VCN limit.''"

text \<open>The body of \<open>_validate_proposed_config\<close> up to its final test: the value of the
  local list \<open>errors\<close>, or the exception raised while reading the inventory.\<close>

definition collect_errors :: "CloudBooterWorkflow \<Rightarrow> PlannedConfig \<Rightarrow> exn + string list" where
  "collect_errors self planned =
     and_then (available_resources self)
       (\<lambda>(available_amd, available_arm_ocpus, available_arm_memory, available_storage).
          let errors0 = [];
              errors1 = (if amd_micro_instance_count planned > available_amd
                         then errors0 @ [amd_error (amd_micro_instance_count planned) available_amd]
                         else errors0);
              errors2 = (if proposed_arm_ocpus planned > available_arm_ocpus
                         then errors1 @ [ocpu_error (proposed_arm_ocpus planned) available_arm_ocpus]
                         else errors1);
              errors3 = (if proposed_arm_memory planned > available_arm_memory
                         then errors2 @ [memory_error (proposed_arm_memory planned) available_arm_memory]
                         else errors2);
              errors4 = (if proposed_storage planned > available_storage
                         then errors3 @ [storage_error (proposed_storage planned) available_storage]
                         else errors3);
              errors5 = (if int (length (vcns (resources self))) > FREE_TIER_MAX_VCNS
                         then errors4 @ [vcn_error] else errors4)
          in Inr errors5)"

text \<open>\<open>_validate_proposed_config\<close>: returns \<open>None\<close> (\<open>Inr ()\<close>) or raises.\<close>

definition validate_proposed_config_oci :: "CloudBooterWorkflow \<Rightarrow> PlannedConfig \<Rightarrow> exn + unit" where
  "validate_proposed_config_oci self planned =
     and_then (collect_errors self planned)
       (\<lambda>errors.
          if errors \<noteq> []
          then Inl (ClickException (''Free Tier validation failed:'' @ [CHR 0x0A] @ ''- ''
                                    @ join ([CHR 0x0A] @ ''- '') errors))
          else Inr ())"

section \<open>OCI: the planners\<close>

text \<open>\<open>self.oci_context and self.oci_context.ubuntu_arm_image_ocid\<close> as a truth value.\<close>

definition has_arm_image :: "CloudBooterWorkflow \<Rightarrow> bool" where
  "has_arm_image self =
     (case oci_context self of None \<Rightarrow> False | Some c \<Rightarrow> truthy (ubuntu_arm_image_ocid c))"

text \<open>\<open>_plan_from_existing\<close>.  The four list comprehensions are evaluated before the test
  for an empty inventory, as in the source.\<close>

definition plan_from_existing :: "CloudBooterWorkflow \<Rightarrow> ExistingResources \<Rightarrow> exn + PlannedConfig" where
  "plan_from_existing self res =
     (let amd_entries = values_of (amd_instances res);
          arm_entries = values_of (arm_instances res)
      in
      and_then (traverse (\<lambda>entry. field entry 0) amd_entries) (\<lambda>amd_hostnames.
      and_then (traverse (\<lambda>entry. field entry 0) arm_entries) (\<lambda>arm_hostnames.
      and_then (traverse (\<lambda>entry. int_field entry 5) arm_entries) (\<lambda>arm_ocpus.
      and_then (traverse (\<lambda>entry. int_field entry 6) arm_entries) (\<lambda>arm_memory.
      let arm_boot = replicate (length arm_entries) FREE_TIER_MIN_BOOT_VOLUME_GB in
      if amd_entries = [] \<and> arm_entries = [] then
        Inr \<lparr> amd_micro_instance_count = 0,
              amd_micro_boot_volume_size_gb = 50,
              amd_micro_hostnames = [],
              amd_block_volume_size_gb = 0,
              arm_flex_instance_count = (if has_arm_image self then 1 else 0),
              arm_flex_ocpus_per_instance = (if has_arm_image self then [4] else []),
              arm_flex_memory_per_instance = (if has_arm_image self then [24] else []),
              arm_flex_boot_volume_size_gb = (if has_arm_image self then [200] else []),
              arm_flex_hostnames = (if has_arm_image self then [''arm-instance-1''] else []),
              arm_block_volume_sizes = (if has_arm_image self then [0] else []) \<rparr>
      else
        Inr \<lparr> amd_micro_instance_count = int (length amd_entries),
              amd_micro_boot_volume_size_gb = 50,
              amd_micro_hostnames = amd_hostnames,
              amd_block_volume_size_gb = 0,
              arm_flex_instance_count = int (length arm_entries),
              arm_flex_ocpus_per_instance = arm_ocpus,
              arm_flex_memory_per_instance = arm_memory,
              arm_flex_boot_volume_size_gb = arm_boot,
              arm_flex_hostnames = arm_hostnames,
              arm_block_volume_sizes = replicate (length arm_entries) 0 \<rparr>)))))"

text \<open>\<open>_plan_maximum\<close>; \<open>range(1, n + 1)\<close> is \<open>[1..n]\<close>.\<close>

definition plan_maximum :: "CloudBooterWorkflow \<Rightarrow> exn + PlannedConfig" where
  "plan_maximum self =
     and_then (available_resources self)
       (\<lambda>(available_amd, available_arm_ocpus, available_arm_memory, available_storage).
          let amd_count = max 0 available_amd;
              amd_boot = 50;
              amd_hosts = map (\<lambda>i. ''amd-instance-'' @ str_int i) [1..amd_count]
          in
          if has_arm_image self \<and> available_arm_ocpus > 0 then
            let remaining_storage =
                  max FREE_TIER_MIN_BOOT_VOLUME_GB (available_storage - amd_count * amd_boot)
            in
            Inr \<lparr> amd_micro_instance_count = amd_count,
                  amd_micro_boot_volume_size_gb = amd_boot,
                  amd_micro_hostnames = amd_hosts,
                  amd_block_volume_size_gb = 0,
                  arm_flex_instance_count = 1,
                  arm_flex_ocpus_per_instance = [available_arm_ocpus],
                  arm_flex_memory_per_instance = [available_arm_memory],
                  arm_flex_boot_volume_size_gb = [remaining_storage],
                  arm_flex_hostnames = [''arm-instance-1''],
                  arm_block_volume_sizes = [0] \<rparr>
          else
            Inr \<lparr> amd_micro_instance_count = amd_count,
                  amd_micro_boot_volume_size_gb = amd_boot,
                  amd_micro_hostnames = amd_hosts,
                  amd_block_volume_size_gb = 0,
                  arm_flex_instance_count = 0,
                  arm_flex_ocpus_per_instance = [],
                  arm_flex_memory_per_instance = [],
                  arm_flex_boot_volume_size_gb = [],
                  arm_flex_hostnames = [],
                  arm_block_volume_sizes = [] \<rparr>)"

subsection \<open>Interactive prompts\<close>

text \<open>
  \<open>click.prompt\<close> belongs to a library; it is modelled by its documented behaviour.  The
  terminal is the list of the lines still to be typed.  A prompt reads one line; an empty
  line stands for the default; a line that does not convert to the prompt's type (for
  \<open>IntRange(lo, hi)\<close>: an integer literal with \<open>lo \<le> n \<le> hi\<close>) is refused and the prompt
  is repeated; the end of the input raises \<open>Abort\<close>.  A prompt returns its value and the
  lines left.
\<close>

fun prompt_int :: "int \<Rightarrow> int \<Rightarrow> int \<Rightarrow> string list \<Rightarrow> exn + (int \<times> string list)" where
  "prompt_int lo hi dflt [] = Inl Abort"
| "prompt_int lo hi dflt (l # ls) =
     (case (if l = [] then Some dflt else py_int l) of
        None \<Rightarrow> prompt_int lo hi dflt ls
      | Some n \<Rightarrow> if lo \<le> n \<and> n \<le> hi then Inr (n, ls) else prompt_int lo hi dflt ls)"

fun prompt_str :: "string \<Rightarrow> string list \<Rightarrow> exn + (string \<times> string list)" where
  "prompt_str dflt [] = Inl Abort"
| "prompt_str dflt (l # ls) = Inr (if l = [] then dflt else l, ls)"

text \<open>The comprehension that asks for the AMD host names, \<open>i\<close> running through the list
  given.\<close>

fun prompt_amd_hosts :: "int list \<Rightarrow> string list \<Rightarrow> exn + (string list \<times> string list)" where
  "prompt_amd_hosts [] inp = Inr ([], inp)"
| "prompt_amd_hosts (i # rest) inp =
     and_then (prompt_str (''amd-instance-'' @ str_int i) inp) (\<lambda>(h, inp1).
     and_then (prompt_amd_hosts rest inp1) (\<lambda>(hs, inp2). Inr (h # hs, inp2)))"

text \<open>The variables the ARM loop of \<open>_plan_custom\<close> updates.\<close>

record arm_vars =
  rem_ocpus :: int
  rem_memory :: int
  arm_ocpus :: "int list"
  arm_memory :: "int list"
  arm_boot :: "int list"
  arm_hosts :: "string list"
  arm_blocks :: "int list"

fun arm_loop :: "int list \<Rightarrow> arm_vars \<Rightarrow> string list \<Rightarrow> exn + (arm_vars \<times> string list)" where
  "arm_loop [] vs inp = Inr (vs, inp)"
| "arm_loop (i # rest) vs inp =
     and_then (prompt_str (''arm-instance-'' @ str_int i) inp) (\<lambda>(host, inp1).
     and_then (prompt_int 1 (max 1 (rem_ocpus vs)) (max 1 (rem_ocpus vs)) inp1) (\<lambda>(ocpu, inp2).
     let max_mem = min (rem_memory vs) (ocpu * 6) in
     and_then (prompt_int 1 (max 1 max_mem) (max 1 max_mem) inp2) (\<lambda>(mem, inp3).
     and_then (prompt_int 50 200 50 inp3) (\<lambda>(boot, inp4).
     arm_loop rest
       \<lparr> rem_ocpus = rem_ocpus vs - ocpu,
         rem_memory = rem_memory vs - mem,
         arm_ocpus = arm_ocpus vs @ [ocpu],
         arm_memory = arm_memory vs @ [mem],
         arm_boot = arm_boot vs @ [boot],
         arm_hosts = arm_hosts vs @ [host],
         arm_blocks = arm_blocks vs @ [0] \<rparr>
       inp4))))"

text \<open>\<open>_plan_custom\<close>, given the lines the user types.\<close>

definition plan_custom ::
  "CloudBooterWorkflow \<Rightarrow> OciContext \<Rightarrow> string list \<Rightarrow> exn + (PlannedConfig \<times> string list)" where
  "plan_custom self ctx inp =
     and_then (available_resources self)
       (\<lambda>(available_amd, available_arm_ocpus, available_arm_memory, available_storage).
     and_then (prompt_int 0 (max 0 available_amd) 0 inp) (\<lambda>(amd_count, inp1).
     and_then (if amd_count = 0 then Inr (50, inp1) else prompt_int 50 100 50 inp1) (\<lambda>(amd_boot, inp2).
     and_then (prompt_amd_hosts [1..amd_count] inp2) (\<lambda>(amd_hosts, inp3).
     and_then
       (if truthy (ubuntu_arm_image_ocid ctx) \<and> available_arm_ocpus > 0 then
          and_then (prompt_int 0 FREE_TIER_MAX_ARM_INSTANCES 1 inp3) (\<lambda>(arm_count, inp4).
          and_then
            (arm_loop [1..arm_count]
               \<lparr> rem_ocpus = available_arm_ocpus, rem_memory = available_arm_memory,
                 arm_ocpus = [], arm_memory = [], arm_boot = [], arm_hosts = [], arm_blocks = [] \<rparr>
               inp4)
            (\<lambda>(vs, inp5). Inr (arm_count, vs, inp5)))
        else
          Inr (0, \<lparr> rem_ocpus = available_arm_ocpus, rem_memory = available_arm_memory,
                    arm_ocpus = [], arm_memory = [], arm_boot = [], arm_hosts = [], arm_blocks = [] \<rparr>,
               inp3))
       (\<lambda>(arm_count, vs, inp5).
          Inr (\<lparr> amd_micro_instance_count = amd_count,
                 amd_micro_boot_volume_size_gb = amd_boot,
                 amd_micro_hostnames = amd_hosts,
                 amd_block_volume_size_gb = 0,
                 arm_flex_instance_count = arm_count,
                 arm_flex_ocpus_per_instance = arm_ocpus vs,
                 arm_flex_memory_per_instance = arm_memory vs,
                 arm_flex_boot_volume_size_gb = arm_boot vs,
                 arm_flex_hostnames = arm_hosts vs,
                 arm_block_volume_sizes = arm_blocks vs \<rparr>,
               inp5))))))"

subsection \<open>The records the inventory stores\<close>















section \<open>Vocabulary of the properties\<close>

text \<open>The entry a rule contributes to a list of violations: its message when the rule
  is breached, nothing otherwise; and the number (0 or 1) it contributes to the count.\<close>

definition entry :: "bool \<Rightarrow> string \<Rightarrow> string list" where
  "entry b m = (if b then [m] else [])"

definition breached :: "bool \<Rightarrow> nat" where
  "breached b = (if b then 1 else 0)"






section \<open>Example inputs\<close>

definition no_resources :: ExistingResources where
  "no_resources = \<lparr> vcns = [], subnets = [], internet_gateways = [], route_tables = [],
     security_lists = [], amd_instances = [], arm_instances = [], boot_volumes = [],
     block_volumes = [] \<rparr>"

definition arm_ctx :: OciContext where
  "arm_ctx = \<lparr> tenancy_ocid = ''ocid1.tenancy.oc1..test'', user_ocid = Some ''ocid1.user.oc1..test'',
     region = ''us-phoenix-1'', availability_domain = ''AD-1'',
     ubuntu_x86_image_ocid = Some ''ocid1.image.oc1.phx.x86'',
     ubuntu_arm_image_ocid = Some ''ocid1.image.oc1.phx.arm'' \<rparr>"

text \<open>A fresh account: nothing exists yet.\<close>

definition fresh :: CloudBooterWorkflow where
  "fresh = \<lparr> resources = no_resources, oci_context = Some arm_ctx \<rparr>"

text \<open>An account that already runs the two free AMD instances, with their boot volumes.\<close>

definition two_amd :: CloudBooterWorkflow where
  "two_amd = \<lparr> resources = no_resources
       \<lparr> amd_instances :=
           [(''ocid1.instance.a'', ''web-1|RUNNING|VM.Standard.E2.1.Micro|129.0.0.1|10.0.0.2''),
            (''ocid1.instance.b'', ''web-2|RUNNING|VM.Standard.E2.1.Micro|129.0.0.2|10.0.0.3'')],
         boot_volumes :=
           [(''ocid1.bootvolume.a'', ''web-1 (Boot Volume)|50''),
            (''ocid1.bootvolume.b'', ''web-2 (Boot Volume)|50'')] \<rparr>,
     oci_context = Some arm_ctx \<rparr>"

definition one_more_amd :: PlannedConfig where
  "one_more_amd = \<lparr> amd_micro_instance_count = 1, amd_micro_boot_volume_size_gb = 50,
     amd_micro_hostnames = [''amd-instance-1''], amd_block_volume_size_gb = 0,
     arm_flex_instance_count = 0, arm_flex_ocpus_per_instance = [],
     arm_flex_memory_per_instance = [], arm_flex_boot_volume_size_gb = [],
     arm_flex_hostnames = [], arm_block_volume_sizes = [] \<rparr>"


definition five_amd :: PlannedConfig where
  "five_amd = \<lparr> amd_micro_instance_count = 5, amd_micro_boot_volume_size_gb = 50,
     amd_micro_hostnames = [''amd-1'', ''amd-2'', ''amd-3'', ''amd-4'', ''amd-5''],
     amd_block_volume_size_gb = 0,
     arm_flex_instance_count = 0, arm_flex_ocpus_per_instance = [],
     arm_flex_memory_per_instance = [], arm_flex_boot_volume_size_gb = [],
     arm_flex_hostnames = [], arm_block_volume_sizes = [] \<rparr>"

text \<open>The two plans \<open>_plan_from_existing\<close> can make for an account without instances.\<close>

definition nothing_planned :: PlannedConfig where
  "nothing_planned = \<lparr> amd_micro_instance_count = 0, amd_micro_boot_volume_size_gb = 50,
     amd_micro_hostnames = [], amd_block_volume_size_gb = 0,
     arm_flex_instance_count = 0, arm_flex_ocpus_per_instance = [],
     arm_flex_memory_per_instance = [], arm_flex_boot_volume_size_gb = [],
     arm_flex_hostnames = [], arm_block_volume_sizes = [] \<rparr>"


text \<open>A plan whose flexible-class lists do not have the length its count announces.\<close>

definition three_without_sizes :: PlannedConfig where
  "three_without_sizes = \<lparr> amd_micro_instance_count = 0, amd_micro_boot_volume_size_gb = 50,
     amd_micro_hostnames = [], amd_block_volume_size_gb = 0,
     arm_flex_instance_count = 3, arm_flex_ocpus_per_instance = [],
     arm_flex_memory_per_instance = [4], arm_flex_boot_volume_size_gb = [],
     arm_flex_hostnames = [''a'', ''b''], arm_block_volume_sizes = [] \<rparr>"

text \<open>An account with one ARM instance (1 OCPU, 6 GB) whose boot volume takes the whole
  storage allowance.\<close>

definition storage_used_up :: CloudBooterWorkflow where
  "storage_used_up = \<lparr> resources = no_resources
       \<lparr> arm_instances :=
           [(''ocid1.instance.c'', ''db|RUNNING|VM.Standard.A1.Flex|129.0.0.3|10.0.0.4|1|6'')],
         boot_volumes := [(''ocid1.bootvolume.c'', ''db (Boot Volume)|200'')] \<rparr>,
     oci_context = Some arm_ctx \<rparr>"

text \<open>The list-length invariant of \<open>PlannedConfig\<close>: the five lists of the flexible class
  have the length the count states.\<close>

definition list_lengths_agree :: "PlannedConfig \<Rightarrow> bool" where
  "list_lengths_agree p =
     (int (length (arm_flex_ocpus_per_instance p)) = arm_flex_instance_count p
      \<and> int (length (arm_flex_memory_per_instance p)) = arm_flex_instance_count p
      \<and> int (length (arm_flex_boot_volume_size_gb p)) = arm_flex_instance_count p
      \<and> int (length (arm_flex_hostnames p)) = arm_flex_instance_count p
      \<and> int (length (arm_block_volume_sizes p)) = arm_flex_instance_count p)"

text \<open>The first field of an inventory record: the text before the first bar.\<close>

definition first_field :: "string \<Rightarrow> string" where
  "first_field v = takeWhile (\<lambda>c. c \<noteq> CHR ''|'') v"

subsection \<open>Callers of the GCP validator (GCP cli.py)\<close>

text \<open>The exit status of the \<open>validate\<close> command: 0 when it returns, the argument of
  \<open>sys.exit\<close> otherwise.\<close>

definition validate_command :: "string \<Rightarrow> string \<Rightarrow> int \<Rightarrow> bool \<Rightarrow> int" where
  "validate_command region' machine_type disk_size allow_paid =
     (let errors = validate_proposed_config machine_type region' disk_size None allow_paid in
      if errors = [] then 0
      else if list_ex (\<lambda>e. take 5 e = ''ERROR'') errors then 1 else 0)"

text \<open>Whether the \<open>deploy\<close> command stops with \<open>sys.exit(1)\<close> after validation.\<close>

definition deploy_stops :: "string \<Rightarrow> int \<Rightarrow> bool \<Rightarrow> bool" where
  "deploy_stops region' disk_size allow_paid =
     (let errors = validate_proposed_config ''e2-micro'' region' disk_size None allow_paid;
          hard_errors = filter (\<lambda>e. take 6 e = ''ERROR:'') errors
      in hard_errors \<noteq> [])"

subsection \<open>Budgets of the custom planner\<close>

text \<open>A list of (OCPUs, memory) choices respects the budgets \<open>ro\<close> and \<open>rm\<close> as the prompts
  of the custom planner enforce them: each choice is at least 1, the OCPUs at most what
  is left (but 1 is always allowed), the memory at most what is left and at most 6 GB for
  each OCPU (but 1 is always allowed); what a choice takes is gone for the later ones.\<close>

fun within_budget :: "int \<Rightarrow> int \<Rightarrow> (int \<times> int) list \<Rightarrow> bool" where
  "within_budget ro rm [] = True"
| "within_budget ro rm ((ocpu, mem) # rest) =
     (1 \<le> ocpu \<and> ocpu \<le> max 1 ro \<and> 1 \<le> mem \<and> mem \<le> max 1 (min rm (ocpu * 6))
      \<and> within_budget (ro - ocpu) (rm - mem) rest)"

text \<open>Before each element of the list some budget is left: the elements before it sum
  to less than the budget.\<close>

fun budget_lasts :: "int \<Rightarrow> int list \<Rightarrow> bool" where
  "budget_lasts r [] = True"
| "budget_lasts r (x # xs) = (0 < r \<and> budget_lasts (r - x) xs)"

subsection \<open>Example runs of the planners\<close>

text \<open>What \<open>_plan_maximum\<close> makes of the account whose storage is used up.\<close>

definition maximum_without_storage :: PlannedConfig where
  "maximum_without_storage = \<lparr> amd_micro_instance_count = 2, amd_micro_boot_volume_size_gb = 50,
     amd_micro_hostnames = [''amd-instance-1'', ''amd-instance-2''], amd_block_volume_size_gb = 0,
     arm_flex_instance_count = 1, arm_flex_ocpus_per_instance = [3],
     arm_flex_memory_per_instance = [18], arm_flex_boot_volume_size_gb = [47],
     arm_flex_hostnames = [''arm-instance-1''], arm_block_volume_sizes = [0] \<rparr>"

text \<open>What \<open>_plan_maximum\<close> makes of a fresh account.\<close>

definition maximum_fresh :: PlannedConfig where
  "maximum_fresh = \<lparr> amd_micro_instance_count = 2, amd_micro_boot_volume_size_gb = 50,
     amd_micro_hostnames = [''amd-instance-1'', ''amd-instance-2''], amd_block_volume_size_gb = 0,
     arm_flex_instance_count = 1, arm_flex_ocpus_per_instance = [4],
     arm_flex_memory_per_instance = [24], arm_flex_boot_volume_size_gb = [100],
     arm_flex_hostnames = [''arm-instance-1''], arm_block_volume_sizes = [0] \<rparr>"

text \<open>A session with the custom planner on a fresh account: no AMD instance, two ARM
  instances, the first with all 4 OCPUs and 24 GB, every other prompt answered with the
  empty line (the default).\<close>

definition greedy_answers :: "string list" where
  "greedy_answers = [''0'', ''2'', [], ''4'', ''24'', [], [], [], [], []]"

definition greedy_plan :: PlannedConfig where
  "greedy_plan = \<lparr> amd_micro_instance_count = 0, amd_micro_boot_volume_size_gb = 50,
     amd_micro_hostnames = [], amd_block_volume_size_gb = 0,
     arm_flex_instance_count = 2, arm_flex_ocpus_per_instance = [4, 1],
     arm_flex_memory_per_instance = [24, 1], arm_flex_boot_volume_size_gb = [50, 50],
     arm_flex_hostnames = [''arm-instance-1'', ''arm-instance-2''],
     arm_block_volume_sizes = [0, 0] \<rparr>"

text \<open>A session that splits the allowance: one AMD instance, two ARM instances of
  2 OCPUs and 12 GB each; an answer outside the range (9 OCPUs) is asked again.\<close>

definition careful_answers :: "string list" where
  "careful_answers = [''1'', ''60'', ''web'', ''2'', ''db-1'', ''9'', ''2'', ''12'', ''70'',
                      ''db-2'', ''2'', ''12'', []]"

definition careful_plan :: PlannedConfig where
  "careful_plan = \<lparr> amd_micro_instance_count = 1, amd_micro_boot_volume_size_gb = 60,
     amd_micro_hostnames = [''web''], amd_block_volume_size_gb = 0,
     arm_flex_instance_count = 2, arm_flex_ocpus_per_instance = [2, 2],
     arm_flex_memory_per_instance = [12, 12], arm_flex_boot_volume_size_gb = [70, 50],
     arm_flex_hostnames = [''db-1'', ''db-2''],
     arm_block_volume_sizes = [0, 0] \<rparr>"

text \<open>What \<open>_plan_from_existing\<close> makes of the account with two AMD instances.\<close>

definition existing_two_amd :: PlannedConfig where
  "existing_two_amd = \<lparr> amd_micro_instance_count = 2, amd_micro_boot_volume_size_gb = 50,
     amd_micro_hostnames = [''web-1'', ''web-2''], amd_block_volume_size_gb = 0,
     arm_flex_instance_count = 0, arm_flex_ocpus_per_instance = [],
     arm_flex_memory_per_instance = [], arm_flex_boot_volume_size_gb = [],
     arm_flex_hostnames = [], arm_block_volume_sizes = [] \<rparr>"

subsection \<open>Existing resources behind the example accounts\<close>












text \<open>The inventory of the repository's test fixture (\<open>mock_existing_resources\<close>): its
  records are bare names.\<close>

definition test_fixture :: CloudBooterWorkflow where
  "test_fixture = \<lparr> resources = no_resources
       \<lparr> vcns := [(''ocid1.vcn.oc1..test'', ''main-vcn'')],
         subnets := [(''ocid1.subnet.oc1..test'', ''main-subnet'')],
         amd_instances := [(''ocid1.instance.oc1..amd1'', ''amd-instance-1'')],
         arm_instances := [(''ocid1.instance.oc1..arm1'', ''arm-instance-1'')] \<rparr>,
     oci_context = Some arm_ctx \<rparr>"



section \<open>OCI: rendering the variables file\<close>

text \<open>The two local helpers of \<open>_render_variables_tf\<close>.\<close>

definition q :: "string list \<Rightarrow> string" where
  \<open>q items = ''['' @ join '', '' (map (\<lambda>x. ''"'' @ x @ ''"'') items) @ '']''\<close>

definition nums :: "int list \<Rightarrow> string" where
  "nums items = ''['' @ join '', '' (map str_int items) @ '']''"

text \<open>\<open>x or ""\<close> for an optional string.\<close>

fun or_empty :: "string option \<Rightarrow> string" where
  "or_empty None = []"
| "or_empty (Some s) = s"

text \<open>
  \<open>_render_variables_tf\<close>.  The result of \<open>time.ctime()\<close> is the parameter \<open>generated\<close>.
  The template is given line by line; the rendered text is every line followed by a line
  feed.
\<close>

definition variables_tf_lines :: "string \<Rightarrow> OciContext \<Rightarrow> PlannedConfig \<Rightarrow> string list" where
  \<open>variables_tf_lines generated ctx planned =
    [
     ''# Oracle Cloud Infrastructure Terraform Variables'',
     ''# Generated: '' @ generated,
     ''# Configuration: '' @ str_int (amd_micro_instance_count planned) @ ''x AMD + '' @ str_int (arm_flex_instance_count planned) @ ''x ARM instances'',
     [],
     ''locals {'',
     ''  # Core identifiers'',
     ''  tenancy_ocid    = "'' @ tenancy_ocid ctx @ ''"'',
     ''  compartment_id  = "'' @ tenancy_ocid ctx @ ''"'',
     ''  user_ocid       = "'' @ or_empty (user_ocid ctx) @ ''"'',
     ''  region          = "'' @ region ctx @ ''"'',
     ''  '',
     ''  # Ubuntu Images (region-specific)'',
     ''  ubuntu_x86_image_ocid = "'' @ or_empty (ubuntu_x86_image_ocid ctx) @ ''"'',
     ''  ubuntu_arm_image_ocid = "'' @ or_empty (ubuntu_arm_image_ocid ctx) @ ''"'',
     ''  '',
     ''  # SSH Configuration'',
     ''  ssh_pubkey_path      = pathexpand("./ssh_keys/id_rsa.pub")'',
     ''  ssh_pubkey_data      = file(pathexpand("./ssh_keys/id_rsa.pub"))'',
     ''  ssh_private_key_path = pathexpand("./ssh_keys/id_rsa")'',
     ''  '',
     ''  # AMD x86 Micro Instances Configuration'',
     ''  amd_micro_instance_count      = '' @ str_int (amd_micro_instance_count planned),
     ''  amd_micro_boot_volume_size_gb = '' @ str_int (amd_micro_boot_volume_size_gb planned),
     ''  amd_micro_hostnames           = '' @ q (amd_micro_hostnames planned),
     ''  amd_block_volume_size_gb      = '' @ str_int (amd_block_volume_size_gb planned),
     ''  '',
     ''  # ARM A1 Flex Instances Configuration'',
     ''  arm_flex_instance_count       = '' @ str_int (arm_flex_instance_count planned),
     ''  arm_flex_ocpus_per_instance   = '' @ nums (arm_flex_ocpus_per_instance planned),
     ''  arm_flex_memory_per_instance  = '' @ nums (arm_flex_memory_per_instance planned),
     ''  arm_flex_boot_volume_size_gb  = '' @ nums (arm_flex_boot_volume_size_gb planned),
     ''  arm_flex_hostnames            = '' @ q (arm_flex_hostnames planned),
     ''  arm_block_volume_sizes        = '' @ nums (arm_block_volume_sizes planned),
     ''  '',
     ''  # Storage calculations'',
     ''  total_amd_storage = local.amd_micro_instance_count * local.amd_micro_boot_volume_size_gb'',
     ''  total_arm_storage = local.arm_flex_instance_count > 0 ? sum(local.arm_flex_boot_volume_size_gb) : 0'',
     ''  total_block_storage = (local.amd_micro_instance_count * local.amd_block_volume_size_gb) + (local.arm_flex_instance_count > 0 ? sum(local.arm_block_volume_sizes) : 0)'',
     ''  total_storage = local.total_amd_storage + local.total_arm_storage + local.total_block_storage'',
     ''}'',
     [],
     ''# Free Tier Limits'',
     ''variable "free_tier_max_storage_gb" {'',
     ''  description = "Maximum storage for Oracle Free Tier"'',
     ''  type        = number'',
     ''  default     = '' @ str_int FREE_TIER_MAX_STORAGE_GB,
     ''}'',
     [],
     ''variable "free_tier_max_arm_ocpus" {'',
     ''  description = "Maximum ARM OCPUs for Oracle Free Tier"'',
     ''  type        = number'',
     ''  default     = '' @ str_int FREE_TIER_MAX_ARM_OCPUS,
     ''}'',
     [],
     ''variable "free_tier_max_arm_memory_gb" {'',
     ''  description = "Maximum ARM memory for Oracle Free Tier"'',
     ''  type        = number'',
     ''  default     = '' @ str_int FREE_TIER_MAX_ARM_MEMORY_GB,
     ''}'',
     [],
     ''# Validation checks'',
     ''check "storage_limit" {'',
     ''  assert {'',
     ''    condition     = local.total_storage <= var.free_tier_max_storage_gb'',
     ''    error_message = "Total storage (${local.total_storage}GB) exceeds Free Tier limit (${var.free_tier_max_storage_gb}GB)"'',
     ''  }'',
     ''}'',
     [],
     ''check "arm_ocpu_limit" {'',
     ''  assert {'',
     ''    condition     = local.arm_flex_instance_count == 0 || sum(local.arm_flex_ocpus_per_instance) <= var.free_tier_max_arm_ocpus'',
     ''    error_message = "Total ARM OCPUs exceed Free Tier limit (${var.free_tier_max_arm_ocpus})"'',
     ''  }'',
     ''}'',
     [],
     ''check "arm_memory_limit" {'',
     ''  assert {'',
     ''    condition     = local.arm_flex_instance_count == 0 || sum(local.arm_flex_memory_per_instance) <= var.free_tier_max_arm_memory_gb'',
     ''    error_message = "Total ARM memory exceeds Free Tier limit (${var.free_tier_max_arm_memory_gb}GB)"'',
     ''  }'',
     ''}''
    ]\<close>

definition render_variables_tf :: "string \<Rightarrow> OciContext \<Rightarrow> PlannedConfig \<Rightarrow> string" where
  "render_variables_tf generated ctx planned =
     concat (map (\<lambda>l. l @ [CHR 0x0A]) (variables_tf_lines generated ctx planned))"

subsection \<open>Reading the numeric literals back\<close>

text \<open>
  Re-parsing is not part of the repository; this is the reader the round-trip property
  refers to.  The text is cut into lines (\<open>text.split("\n")\<close>); the value of a local is
  what follows \<open>name = \<close> on the first line that starts with it; a number is read with
  \<open>int\<close>, a list of numbers is bracketed and separated by commas.
\<close>

definition newline_free :: "string \<Rightarrow> bool" where
  "newline_free s = (CHR 0x0A \<notin> set s)"

fun strip_prefix :: "string \<Rightarrow> string \<Rightarrow> string option" where
  "strip_prefix [] s = Some s"
| "strip_prefix (k # ks) [] = None"
| "strip_prefix (k # ks) (c # cs) = (if k = c then strip_prefix ks cs else None)"

fun local_value :: "string \<Rightarrow> string list \<Rightarrow> string option" where
  "local_value key [] = None"
| "local_value key (l # ls) =
     (case strip_prefix key l of Some v \<Rightarrow> Some v | None \<Rightarrow> local_value key ls)"

fun all_some :: "'a option list \<Rightarrow> 'a list option" where
  "all_some [] = Some []"
| "all_some (None # xs) = None"
| "all_some (Some x # xs) = map_option ((#) x) (all_some xs)"

definition parse_nums :: "string \<Rightarrow> int list option" where
  "parse_nums s =
     (case s of
        [] \<Rightarrow> None
      | c # cs \<Rightarrow>
          if c = CHR ''['' \<and> cs \<noteq> [] \<and> last cs = CHR '']'' then
            (if butlast cs = [] then Some []
             else all_some (map py_int (split CHR '','' (butlast cs))))
          else None)"

definition read_int :: "string \<Rightarrow> string list \<Rightarrow> int option" where
  "read_int key ls = Option.bind (local_value key ls) py_int"

definition read_nums :: "string \<Rightarrow> string list \<Rightarrow> int list option" where
  "read_nums key ls = Option.bind (local_value key ls) parse_nums"

text \<open>The numeric literals of a plan, and what the reader finds in a text.\<close>

record numeric_literals =
  n_amd_count :: int
  n_amd_boot :: int
  n_amd_block :: int
  n_arm_count :: int
  n_arm_ocpus :: "int list"
  n_arm_memory :: "int list"
  n_arm_boot :: "int list"
  n_arm_blocks :: "int list"

definition numbers_of :: "PlannedConfig \<Rightarrow> numeric_literals" where
  "numbers_of planned =
     \<lparr> n_amd_count = amd_micro_instance_count planned,
       n_amd_boot = amd_micro_boot_volume_size_gb planned,
       n_amd_block = amd_block_volume_size_gb planned,
       n_arm_count = arm_flex_instance_count planned,
       n_arm_ocpus = arm_flex_ocpus_per_instance planned,
       n_arm_memory = arm_flex_memory_per_instance planned,
       n_arm_boot = arm_flex_boot_volume_size_gb planned,
       n_arm_blocks = arm_block_volume_sizes planned \<rparr>"

definition reparse :: "string \<Rightarrow> numeric_literals option" where
  "reparse text' =
     (let ls = split (CHR 0x0A) text' in
      case (read_int ''  amd_micro_instance_count      = '' ls,
            read_int ''  amd_micro_boot_volume_size_gb = '' ls,
            read_int ''  amd_block_volume_size_gb      = '' ls,
            read_int ''  arm_flex_instance_count       = '' ls,
            read_nums ''  arm_flex_ocpus_per_instance   = '' ls,
            read_nums ''  arm_flex_memory_per_instance  = '' ls,
            read_nums ''  arm_flex_boot_volume_size_gb  = '' ls,
            read_nums ''  arm_block_volume_sizes        = '' ls) of
        (Some a, Some b, Some c, Some d, Some e, Some f, Some g, Some h) \<Rightarrow>
          Some \<lparr> n_amd_count = a, n_amd_boot = b, n_amd_block = c, n_arm_count = d,
                 n_arm_ocpus = e, n_arm_memory = f, n_arm_boot = g, n_arm_blocks = h \<rparr>
      | _ \<Rightarrow> None)"

text \<open>The context strings and host names that go into the text contain no line feed.\<close>

definition single_lines :: "string \<Rightarrow> OciContext \<Rightarrow> PlannedConfig \<Rightarrow> bool" where
  "single_lines generated ctx planned =
     (newline_free generated \<and> newline_free (tenancy_ocid ctx)
      \<and> newline_free (or_empty (user_ocid ctx)) \<and> newline_free (region ctx)
      \<and> newline_free (or_empty (ubuntu_x86_image_ocid ctx))
      \<and> newline_free (or_empty (ubuntu_arm_image_ocid ctx))
      \<and> list_all newline_free (amd_micro_hostnames planned)
      \<and> list_all newline_free (arm_flex_hostnames planned))"

text \<open>The characters of a numeral: digits, after an optional minus sign.\<close>

definition numeral_char :: "char \<Rightarrow> bool" where
  "numeral_char c = (is_digit c \<and> \<not> is_space c \<and> c \<noteq> CHR ''-'' \<and> c \<noteq> CHR ''+''
                     \<and> c \<noteq> CHR '','' \<and> c \<noteq> CHR 0x0A)"

section \<open>Basic facts\<close>

lemma and_then_simps [simp]:
  "and_then (Inr x) f = f x"
  "and_then (Inl e) f = Inl e"
  by (simp_all add: and_then_def)

lemma and_then_eq_Inr:
  "and_then m f = Inr y \<longleftrightarrow> (\<exists>x. m = Inr x \<and> f x = Inr y)"
  by (cases m) simp_all

lemma entry_simps [simp]:
  "entry True m = [m]" "entry False m = []"
  by (simp_all add: entry_def)

lemma breached_simps [simp]:
  "breached True = 1" "breached False = 0"
  by (simp_all add: breached_def)

lemma traverse_length: "traverse f xs = Inr ys \<Longrightarrow> length ys = length xs"
  by (induction xs arbitrary: ys) (auto simp: and_then_eq_Inr)

section \<open>Decimal numerals: \<open>int(str(n)) = n\<close>\<close>

lemma digit_char_props:
  assumes "d < 10"
  shows "is_digit (digit_char d)" and "digit_val (digit_char d) = d"
    and "\<not> is_space (digit_char d)" and "digit_char d \<noteq> CHR ''-''" and "digit_char d \<noteq> CHR ''+''"
    and "digit_char d \<noteq> CHR '',''" and "digit_char d \<noteq> CHR 0x0A"
proof -
  have v: "(of_char (digit_char d) :: nat) = 48 + d"
    using assms by (simp add: digit_char_def)
  show "is_digit (digit_char d)" using assms by (simp add: is_digit_def v)
  show "digit_val (digit_char d) = d" by (simp add: digit_val_def v)
  show "\<not> is_space (digit_char d)" using assms by (auto simp: is_space_def v)
  have ne: "digit_char d \<noteq> c" if "(of_char c :: nat) < 48" for c
    using that v by (metis not_add_less1)
  show "digit_char d \<noteq> CHR ''-''" by (rule ne) simp
  show "digit_char d \<noteq> CHR ''+''" by (rule ne) simp
  show "digit_char d \<noteq> CHR '',''" by (rule ne) simp
  show "digit_char d \<noteq> CHR 0x0A" by (rule ne) simp
qed

lemma numeral_char_digit: "d < 10 \<Longrightarrow> numeral_char (digit_char d)"
  by (simp add: numeral_char_def digit_char_props)

lemma str_nat_chars: "list_all numeral_char (str_nat n)"
proof (induction n rule: str_nat.induct)
  case (1 n)
  show ?case
  proof (cases "n < 10")
    case True
    then show ?thesis by (subst str_nat.simps) (simp add: numeral_char_digit)
  next
    case False
    with 1 show ?thesis by (subst str_nat.simps) (simp add: numeral_char_digit)
  qed
qed

lemma str_nat_not_empty: "str_nat n \<noteq> []"
  by (subst str_nat.simps) simp

lemma digits_rest_all_digits:
  "list_all is_digit ds \<Longrightarrow>
     digits_rest acc ds = Some (foldl (\<lambda>a c. 10 * a + digit_val c) acc ds)"
  by (induction acc ds rule: digits_rest.induct) simp_all

lemma str_nat_value: "foldl (\<lambda>a c. 10 * a + digit_val c) 0 (str_nat n) = n"
proof (induction n rule: str_nat.induct)
  case (1 n)
  show ?case
  proof (cases "n < 10")
    case True
    then show ?thesis by (subst str_nat.simps) (simp add: digit_char_props)
  next
    case False
    with 1 show ?thesis by (subst str_nat.simps) (simp add: digit_char_props)
  qed
qed

lemma digits_str_nat: "digits (str_nat n) = Some n"
proof -
  obtain c cs where s: "str_nat n = c # cs"
    using str_nat_not_empty [of n] by (cases "str_nat n") auto
  have all: "list_all is_digit (c # cs)"
    using str_nat_chars [of n] unfolding s by (auto simp: list_all_iff numeral_char_def)
  have "digits_rest 0 (c # cs) = Some (foldl (\<lambda>a c. 10 * a + digit_val c) 0 (c # cs))"
    by (rule digits_rest_all_digits [OF all])
  moreover have "digits_rest (digit_val c) cs = Some (foldl (\<lambda>a c. 10 * a + digit_val c) (digit_val c) cs)"
    using all by (intro digits_rest_all_digits) simp
  ultimately have "digits (c # cs) = Some (foldl (\<lambda>a c. 10 * a + digit_val c) 0 (c # cs))"
    using all by simp
  then show ?thesis using str_nat_value [of n] by (simp add: s)
qed

lemma str_int_chars: "list_all (\<lambda>c. numeral_char c \<or> c = CHR ''-'') (str_int i)"
  using str_nat_chars by (auto simp: str_int_def list_all_iff)

lemma str_int_not_empty: "str_int i \<noteq> []"
  by (simp add: str_int_def str_nat_not_empty)

lemma signed_digits_str_int: "signed_digits (str_int i) = Some i"
proof (cases "i < 0")
  case True
  then show ?thesis by (simp add: str_int_def digits_str_nat)
next
  case False
  obtain c cs where s: "str_nat (nat i) = c # cs"
    using str_nat_not_empty [of "nat i"] by (cases "str_nat (nat i)") auto
  have "numeral_char c" using str_nat_chars [of "nat i"] unfolding s by simp
  then have "c \<noteq> CHR ''-''" "c \<noteq> CHR ''+''" by (simp_all add: numeral_char_def)
  with False show ?thesis
    using digits_str_nat [of "nat i"] by (simp add: str_int_def s)
qed

lemma strip_no_space: "\<forall>c \<in> set s. \<not> is_space c \<Longrightarrow> strip s = s"
proof -
  assume a: "\<forall>c \<in> set s. \<not> is_space c"
  then have "dropWhile is_space s = s" by (cases s) auto
  moreover from a have "dropWhile is_space (rev s) = rev s" by (cases "rev s") auto
  ultimately show ?thesis by (simp add: strip_def)
qed

lemma str_int_no_space: "\<forall>c \<in> set (str_int i). \<not> is_space c"
proof
  fix c
  assume "c \<in> set (str_int i)"
  with str_int_chars [of i] have "numeral_char c \<or> c = CHR ''-''"
    by (simp add: list_all_iff)
  then show "\<not> is_space c"
  proof
    assume "numeral_char c"
    then show ?thesis by (simp add: numeral_char_def)
  next
    assume "c = CHR ''-''"
    then show ?thesis by (simp add: is_space_def)
  qed
qed

lemma py_int_str_int: "py_int (str_int i) = Some i"
  by (simp add: py_int_def strip_no_space [OF str_int_no_space] signed_digits_str_int)

lemma py_int_space_str_int: "py_int (CHR '' '' # str_int i) = Some i"
proof -
  have "strip (CHR '' '' # str_int i) = strip (str_int i)"
    by (simp add: strip_def is_space_def)
  then show ?thesis using py_int_str_int [of i] by (simp add: py_int_def)
qed

lemma str_int_no_comma: "CHR '','' \<notin> set (str_int i)"
  using str_int_chars [of i] by (auto simp: list_all_iff numeral_char_def)

lemma str_int_no_newline: "CHR 0x0A \<notin> set (str_int i)"
  using str_int_chars [of i] by (auto simp: list_all_iff numeral_char_def)


section \<open>Splitting and joining\<close>

lemma split_not_empty: "split c s \<noteq> []"
  by (induction s) (auto split: list.splits)

lemma hd_split: "hd (split c s) = takeWhile (\<lambda>x. x \<noteq> c) s"
  by (induction s) (auto split: list.splits simp: split_not_empty)

lemma split_without: "c \<notin> set xs \<Longrightarrow> split c xs = [xs]"
  by (induction xs) auto

lemma split_at_first: "c \<notin> set xs \<Longrightarrow> split c (xs @ c # ys) = xs # split c ys"
  by (induction xs) auto

lemma field_0: "field v 0 = Inr (first_field v)"
  using split_not_empty [of "CHR ''|''" v] hd_split [of "CHR ''|''" v]
  by (simp add: field_def index_def first_field_def hd_conv_nth)

lemma traverse_field_0: "traverse (\<lambda>e. field e 0) xs = Inr (map first_field xs)"
  by (induction xs) (simp_all add: field_0)












lemma split_lines:
  "list_all newline_free ls \<Longrightarrow>
     split (CHR 0x0A) (concat (map (\<lambda>l. l @ [CHR 0x0A]) ls)) = ls @ [[]]"
  by (induction ls) (simp_all add: newline_free_def split_at_first)

lemma all_some_map_Some: "all_some (map Some xs) = Some xs"
  by (induction xs) simp_all

lemma split_join_numerals:
  "split CHR '','' (join '', '' (map str_int (x # xs)))
     = str_int x # map (\<lambda>y. CHR '' '' # str_int y) xs"
proof (induction xs arbitrary: x)
  case Nil
  then show ?case by (simp add: split_without str_int_no_comma)
next
  case (Cons y ys)
  have "join '', '' (map str_int (x # y # ys))
          = str_int x @ CHR '','' # (CHR '' '' # join '', '' (map str_int (y # ys)))"
    by simp
  then have "split CHR '','' (join '', '' (map str_int (x # y # ys)))
          = str_int x # split CHR '','' (CHR '' '' # join '', '' (map str_int (y # ys)))"
    by (simp only: split_at_first [OF str_int_no_comma])
  also have "split CHR '','' (CHR '' '' # join '', '' (map str_int (y # ys)))
          = (CHR '' '' # str_int y) # map (\<lambda>y. CHR '' '' # str_int y) ys"
    using Cons.IH [of y] by simp
  finally show ?case by simp
qed

lemma join_numerals_not_empty: "join '', '' (map str_int (x # xs)) \<noteq> []"
  by (cases xs) (simp_all add: str_int_not_empty)

lemma parse_nums_nums: "parse_nums (nums xs) = Some xs"
proof (cases xs)
  case Nil
  then show ?thesis by (simp add: parse_nums_def nums_def)
next
  case (Cons x ys)
  let ?body = "join '', '' (map str_int (x # ys))"
  have ne: "?body \<noteq> []" by (rule join_numerals_not_empty)
  have "map py_int (split CHR '','' ?body) = map Some (x # ys)"
    unfolding split_join_numerals by (simp add: py_int_str_int py_int_space_str_int)
  then have "all_some (map py_int (split CHR '','' ?body)) = Some (x # ys)"
    by (simp only: all_some_map_Some)
  with ne show ?thesis
    unfolding Cons by (simp add: parse_nums_def nums_def)
qed

lemma join_newline_free:
  "list_all newline_free xs \<Longrightarrow> newline_free sep \<Longrightarrow> newline_free (join sep xs)"
  by (induction sep xs rule: join.induct) (auto simp: newline_free_def)

lemma newline_free_simps [simp]:
  "newline_free []"
  "newline_free (c # s) = (c \<noteq> CHR 0x0A \<and> newline_free s)"
  "newline_free (a @ b) = (newline_free a \<and> newline_free b)"
  by (auto simp: newline_free_def)

lemma newline_free_str_int [simp]: "newline_free (str_int i)"
  by (simp add: newline_free_def str_int_no_newline)

lemma newline_free_nums [simp]: "newline_free (nums xs)"
  by (simp add: nums_def join_newline_free list_all_iff)

lemma newline_free_q: "list_all newline_free hs \<Longrightarrow> newline_free (q hs)"
  by (simp add: q_def join_newline_free list_all_iff)

section \<open>The GCP validator\<close>

lemma LIMITS_fields:
  "free_machine_type LIMITS = ''e2-micro''"
  "set (free_compute_regions LIMITS) = {''us-west1'', ''us-central1'', ''us-east1''}"
  "free_standard_pd_gb LIMITS = 30"
  "set (free_storage_regions LIMITS) = {''us-east1'', ''us-west1'', ''us-central1''}"
  by (simp_all add: LIMITS_def)

lemma gcp_messages_differ:
  "machine_type_error l a \<noteq> region_error l b"
  "machine_type_error l a \<noteq> boot_disk_error l d"
  "machine_type_error l a \<noteq> storage_region_error l c"
  "region_error l b \<noteq> boot_disk_error l d"
  "region_error l b \<noteq> storage_region_error l c"
  "boot_disk_error l d \<noteq> storage_region_error l c"
  by (simp_all add: machine_type_error_def region_error_def boot_disk_error_def
      storage_region_error_def)

lemma gcp_messages_are_errors:
  "is_error_entry (machine_type_error l a)"
  "is_error_entry (region_error l b)"
  "is_error_entry (boot_disk_error l d)"
  "is_error_entry (storage_region_error l c)"
  by (simp_all add: is_error_entry_def machine_type_error_def region_error_def boot_disk_error_def
      storage_region_error_def)

lemma validate_unpaid:
  "validate_proposed_config mt r d sr False =
     entry (breaks_machine_type mt) (machine_type_error LIMITS mt)
   @ entry (breaks_region r) (region_error LIMITS r)
   @ entry (breaks_boot_disk d) (boot_disk_error LIMITS d)
   @ (case sr of None \<Rightarrow> [] | Some s \<Rightarrow>
        entry (breaks_storage_region sr) (storage_region_error LIMITS s))"
  by (cases sr) (simp_all add: validate_proposed_config_def Let_def LIMITS_fields entry_def
      breaks_machine_type_def breaks_region_def breaks_boot_disk_def)

lemma validate_paid: "validate_proposed_config mt r d sr True = []"
  by (simp add: validate_proposed_config_def)

lemma error_is_not_warn: "take 6 e = ''ERROR:'' \<Longrightarrow> take 5 e \<noteq> ''WARN:''"
proof
  assume e: "take 6 e = ''ERROR:''" and w: "take 5 e = ''WARN:''"
  from w have "take 1 (take 5 e) = ''W''" by simp
  moreover from e have "take 1 (take 6 e) = ''E''" by simp
  ultimately show False by (simp add: min_def)
qed

lemma validate_entries_are_errors:
  "list_all is_error_entry (validate_proposed_config mt r d sr paid)"
proof (cases paid)
  case True
  then show ?thesis by (simp add: validate_paid)
next
  case False
  then show ?thesis
    by (cases sr) (simp_all add: validate_unpaid gcp_messages_are_errors entry_def)
qed

lemma error_entry_prefix: "is_error_entry e \<Longrightarrow> take 5 e = ''ERROR''"
proof -
  assume "is_error_entry e"
  then have "take 5 (take 6 e) = take 5 ''ERROR:''" by (simp only: is_error_entry_def)
  then show ?thesis by (simp add: min_def)
qed

text \<open>
  \<^bold>\<open>Claim C1.\<close>  Without the paid override, the GCP validator returns exactly one
  \<open>ERROR:\<close> entry for each of the four rules that the input breaks (machine type, compute
  region, boot disk size, storage region when one is supplied) and nothing else: each
  rule's message is in the list exactly when the rule is broken, the entries are pairwise
  different, their number is the number of broken rules, and the list is empty exactly
  when no rule is broken.  (A storage region that is \<open>None\<close> or the empty string counts as
  not supplied, as the validator's truth test has it.)
\<close>

theorem gcp_validator_one_error_per_broken_rule:
  "(let es = validate_proposed_config mt r d sr False in
      (machine_type_error LIMITS mt \<in> set es) = breaks_machine_type mt
    \<and> (region_error LIMITS r \<in> set es) = breaks_region r
    \<and> (boot_disk_error LIMITS d \<in> set es) = breaks_boot_disk d
    \<and> (case sr of None \<Rightarrow> \<not> breaks_storage_region sr
        | Some s \<Rightarrow> (storage_region_error LIMITS s \<in> set es) = breaks_storage_region sr)
    \<and> distinct es
    \<and> list_all is_error_entry es
    \<and> length es = breached (breaks_machine_type mt) + breached (breaks_region r)
                   + breached (breaks_boot_disk d) + breached (breaks_storage_region sr)
    \<and> (es = []) = (\<not> breaks_machine_type mt \<and> \<not> breaks_region r
                    \<and> \<not> breaks_boot_disk d \<and> \<not> breaks_storage_region sr))"
proof -
  define A where "A = breaks_machine_type mt"
  define B where "B = breaks_region r"
  define C where "C = breaks_boot_disk d"
  define D where "D = breaks_storage_region sr"
  note ne = gcp_messages_differ gcp_messages_differ [symmetric]
  show ?thesis
  proof (cases sr)
    case None
    then have D: "\<not> D" by (simp add: D_def)
    show ?thesis
      unfolding Let_def validate_unpaid A_def [symmetric] B_def [symmetric] C_def [symmetric]
        D_def [symmetric]
      using D None
      by (cases A; cases B; cases C) (simp_all add: ne gcp_messages_are_errors)
  next
    case (Some s)
    show ?thesis
      unfolding Let_def validate_unpaid A_def [symmetric] B_def [symmetric] C_def [symmetric]
        D_def [symmetric]
      using Some
      by (cases A; cases B; cases C; cases D) (simp_all add: ne gcp_messages_are_errors)
  qed
qed

text \<open>Three rules broken at once give three entries; the canonical free configuration
  gives none.\<close>

theorem gcp_validator_one_error_per_broken_rule_witness:
  "length (validate_proposed_config ''n2-standard-2'' ''asia-east1'' 200 None False) = 3
   \<and> validate_proposed_config ''e2-micro'' ''us-central1'' 20 None False = []"
  using gcp_validator_one_error_per_broken_rule [of "''n2-standard-2''" "''asia-east1''" 200 None]
        gcp_validator_one_error_per_broken_rule [of "''e2-micro''" "''us-central1''" 20 None]
  by (simp add: Let_def breaks_machine_type_def breaks_region_def breaks_boot_disk_def)

text \<open>
  \<^bold>\<open>Claim C10.\<close>  Every string the GCP validator returns, for any input and either value
  of the override flag, begins with \<open>ERROR:\<close>; none begins with \<open>WARN:\<close>.
\<close>

theorem gcp_validator_returns_only_errors:
  "\<forall>e \<in> set (validate_proposed_config mt r d sr paid).
     take 6 e = ''ERROR:'' \<and> take 5 e \<noteq> ''WARN:''"
proof (cases paid)
  case True
  then show ?thesis by (simp add: validate_paid)
next
  case False
  have "list_all is_error_entry (validate_proposed_config mt r d sr False)"
    unfolding validate_unpaid by (cases sr) (simp_all add: gcp_messages_are_errors entry_def)
  then have "\<forall>e \<in> set (validate_proposed_config mt r d sr False). is_error_entry e"
    by (simp only: list_all_iff)
  with False show ?thesis
    unfolding is_error_entry_def using error_is_not_warn by simp
qed

theorem gcp_validator_returns_only_errors_witness:
  "validate_proposed_config ''n1-standard-1'' ''us-central1'' 20 None False \<noteq> []
   \<and> take 6 (hd (validate_proposed_config ''n1-standard-1'' ''us-central1'' 20 None False)) = ''ERROR:''
   \<and> take 5 (hd (validate_proposed_config ''n1-standard-1'' ''us-central1'' 20 None False)) \<noteq> ''WARN:''"
proof -
  let ?es = "validate_proposed_config ''n1-standard-1'' ''us-central1'' 20 None False"
  have ne: "?es \<noteq> []"
    by (simp add: validate_proposed_config_def LIMITS_def)
  then have "hd ?es \<in> set ?es" by (rule hd_in_set)
  with ne show ?thesis
    using gcp_validator_returns_only_errors [of "''n1-standard-1''" "''us-central1''" 20 None False]
    by (intro conjI) (fast, fast, fast)
qed

section \<open>The OCI validator\<close>

lemma available_resources_eq:
  assumes "traverse (\<lambda>v. int_field v 5) (values_of (arm_instances (resources self))) = Inr existing_ocpus"
    and "traverse (\<lambda>v. int_field v 6) (values_of (arm_instances (resources self))) = Inr existing_memory"
    and "traverse (\<lambda>v. int_field v 1) (values_of (boot_volumes (resources self))) = Inr existing_boot"
    and "traverse (\<lambda>v. int_field v 1) (values_of (block_volumes (resources self))) = Inr existing_block"
  shows "available_resources self =
     Inr (2 - int (length (amd_instances (resources self))),
          4 - sum_list existing_ocpus,
          24 - sum_list existing_memory,
          200 - (sum_list existing_boot + sum_list existing_block))"
  using assms
  by (simp add: available_resources_def Let_def FREE_TIER_MAX_AMD_INSTANCES_def
      FREE_TIER_MAX_ARM_OCPUS_def FREE_TIER_MAX_ARM_MEMORY_GB_def FREE_TIER_MAX_STORAGE_GB_def)

lemma collect_errors_eq:
  assumes "available_resources self = Inr (a, c, m, s)"
  shows "collect_errors self planned =
     Inr (entry (amd_micro_instance_count planned > a) (amd_error (amd_micro_instance_count planned) a)
        @ entry (proposed_arm_ocpus planned > c) (ocpu_error (proposed_arm_ocpus planned) c)
        @ entry (proposed_arm_memory planned > m) (memory_error (proposed_arm_memory planned) m)
        @ entry (proposed_storage planned > s) (storage_error (proposed_storage planned) s)
        @ entry (int (length (vcns (resources self))) > 2) vcn_error)"
  using assms by (simp add: collect_errors_def Let_def entry_def FREE_TIER_MAX_VCNS_def)

lemma validate_oci_eq:
  assumes "collect_errors self planned = Inr es"
  shows "validate_proposed_config_oci self planned =
     (if es = [] then Inr ()
      else Inl (ClickException (''Free Tier validation failed:'' @ [CHR 0x0A] @ ''- ''
                                @ join ([CHR 0x0A] @ ''- '') es)))"
  using assms by (simp add: validate_proposed_config_oci_def)

lemma validate_oci_passes_iff:
  assumes "available_resources self = Inr (a, c, m, s)"
  shows "(validate_proposed_config_oci self other = Inr ()) =
     (amd_micro_instance_count other \<le> a \<and> proposed_arm_ocpus other \<le> c \<and> proposed_arm_memory other \<le> m
      \<and> proposed_storage other \<le> s \<and> length (vcns (resources self)) \<le> 2)"
  unfolding validate_oci_eq [OF collect_errors_eq [OF assms]]
  by (auto simp: entry_def)

lemma validate_oci_ignores_count:
  "validate_proposed_config_oci self
        (p\<lparr> arm_flex_instance_count := n, arm_flex_hostnames := hs, amd_micro_hostnames := hs' \<rparr>)
      = validate_proposed_config_oci self p"
proof (cases "available_resources self")
  case (Inl e)
  then show ?thesis
    by (simp add: validate_proposed_config_oci_def collect_errors_def)
next
  case (Inr t)
  then obtain a c m s where av: "available_resources self = Inr (a, c, m, s)"
    by (cases t) auto
  show ?thesis
    unfolding validate_oci_eq [OF collect_errors_eq [OF av]]
    by (simp add: proposed_arm_ocpus_def proposed_arm_memory_def proposed_storage_def)
qed



lemma fresh_inventory:
  "traverse (\<lambda>v. int_field v 5) (values_of (arm_instances (resources fresh))) = Inr []"
  "traverse (\<lambda>v. int_field v 6) (values_of (arm_instances (resources fresh))) = Inr []"
  "traverse (\<lambda>v. int_field v 1) (values_of (boot_volumes (resources fresh))) = Inr []"
  "traverse (\<lambda>v. int_field v 1) (values_of (block_volumes (resources fresh))) = Inr []"
  by code_simp+

lemma fresh_available: "available_resources fresh = Inr (2, 4, 24, 200)"
  using available_resources_eq [OF fresh_inventory] by (simp add: fresh_def no_resources_def)





text \<open>
  \<^bold>\<open>Claim C5.\<close>  With the paid override set, the GCP validator returns the empty list
  whatever the machine type, region, disk size and storage region are.  The OCI validator
  has no override parameter: whenever one of its resource conditions holds it raises,
  for every workflow state and plan.
\<close>

theorem paid_override_clears_gcp_checks_only:
  "validate_proposed_config mt r d sr True = []
   \<and> (available_resources self = Inr (a, c, m, s) \<longrightarrow>
        (amd_micro_instance_count planned > a \<or> proposed_arm_ocpus planned > c
         \<or> proposed_arm_memory planned > m \<or> proposed_storage planned > s
         \<or> int (length (vcns (resources self))) > 2) \<longrightarrow>
        (\<exists>msg. validate_proposed_config_oci self planned = Inl (ClickException msg)))"
proof (intro conjI impI)
  show "validate_proposed_config mt r d sr True = []" by (rule validate_paid)
next
  assume av: "available_resources self = Inr (a, c, m, s)"
    and ex: "amd_micro_instance_count planned > a \<or> proposed_arm_ocpus planned > c
         \<or> proposed_arm_memory planned > m \<or> proposed_storage planned > s
         \<or> int (length (vcns (resources self))) > 2"
  note ce = collect_errors_eq [OF av, of planned]
  from ex show "\<exists>msg. validate_proposed_config_oci self planned = Inl (ClickException msg)"
    unfolding validate_oci_eq [OF ce] by (auto simp: entry_def)
qed

theorem paid_override_clears_gcp_checks_only_witness:
  "validate_proposed_config ''n1-standard-96'' ''europe-west1'' 500 (Some ''asia-east1'') True = []
   \<and> available_resources fresh = Inr (2, 4, 24, 200)
   \<and> amd_micro_instance_count five_amd > 2
   \<and> (\<exists>msg. validate_proposed_config_oci fresh five_amd = Inl (ClickException msg))"
proof -
  have av: "available_resources fresh = Inr (2, 4, 24, 200)"
    using available_resources_eq [OF fresh_inventory] by (simp add: fresh_def no_resources_def)
  have n: "amd_micro_instance_count five_amd > 2" by (simp add: five_amd_def)
  from av n show ?thesis
    using paid_override_clears_gcp_checks_only
      [of "''n1-standard-96''" "''europe-west1''" 500 "Some ''asia-east1''" fresh 2 4 24 200 five_amd]
    by simp
qed

text \<open>
  \<^bold>\<open>Claim C8, as the code has it.\<close>  The GCP validator returns its violations as a list of
  strings and its callers decide: the \<open>validate\<close> command exits with status 1 exactly when
  the list is not empty, and \<open>deploy\<close> stops exactly then.  The OCI validator collects its
  violations in a list as well, but does not return it: when the list is not empty it
  raises one \<open>ClickException\<close> whose message joins all violations, and otherwise it returns
  \<open>None\<close>.
\<close>

theorem violations_returned_by_gcp_raised_by_oci:
  "validate_command r mt d paid = (if validate_proposed_config mt r d None paid = [] then 0 else 1)
   \<and> deploy_stops r d paid = (validate_proposed_config ''e2-micro'' r d None paid \<noteq> [])
   \<and> (collect_errors self planned = Inr es \<longrightarrow>
        validate_proposed_config_oci self planned =
          (if es = [] then Inr ()
           else Inl (ClickException (''Free Tier validation failed:'' @ [CHR 0x0A] @ ''- ''
                                     @ join ([CHR 0x0A] @ ''- '') es))))"
proof (intro conjI impI)
  let ?es = "validate_proposed_config mt r d None paid"
  have all: "list_all is_error_entry ?es" by (rule validate_entries_are_errors)
  have "list_ex (\<lambda>e. take 5 e = ''ERROR'') ?es" if "?es \<noteq> []"
  proof -
    from that have "hd ?es \<in> set ?es" by (rule hd_in_set)
    moreover from this all have "is_error_entry (hd ?es)" by (simp add: list_all_iff)
    ultimately show ?thesis
      unfolding list_ex_iff using error_entry_prefix by blast
  qed
  then show "validate_command r mt d paid = (if ?es = [] then 0 else 1)"
    by (simp add: validate_command_def Let_def)
next
  let ?es = "validate_proposed_config ''e2-micro'' r d None paid"
  have "list_all is_error_entry ?es" by (rule validate_entries_are_errors)
  then have "filter (\<lambda>e. take 6 e = ''ERROR:'') ?es = ?es"
    by (simp add: list_all_iff is_error_entry_def)
  then show "deploy_stops r d paid = (?es \<noteq> [])"
    by (simp add: deploy_stops_def Let_def)
next
  assume "collect_errors self planned = Inr es"
  then show "validate_proposed_config_oci self planned =
          (if es = [] then Inr ()
           else Inl (ClickException (''Free Tier validation failed:'' @ [CHR 0x0A] @ ''- ''
                                     @ join ([CHR 0x0A] @ ''- '') es)))"
    by (rule validate_oci_eq)
qed

theorem violations_returned_by_gcp_raised_by_oci_witness:
  "validate_command ''europe-west1'' ''e2-micro'' 20 False = 1
   \<and> deploy_stops ''us-central1'' 20 False = False
   \<and> collect_errors two_amd one_more_amd = Inr [''Cannot create 1 AMD instances, only 0 available.'']
   \<and> validate_proposed_config_oci two_amd one_more_amd =
       Inl (ClickException (''Free Tier validation failed:'' @ [CHR 0x0A]
                            @ ''- Cannot create 1 AMD instances, only 0 available.''))"
proof -
  have 1: "validate_proposed_config ''e2-micro'' ''europe-west1'' 20 None False \<noteq> []"
    by (simp add: validate_proposed_config_def LIMITS_def)
  have 2: "validate_proposed_config ''e2-micro'' ''us-central1'' 20 None False = []"
    by (simp add: validate_proposed_config_def LIMITS_def)
  have 3: "collect_errors two_amd one_more_amd = Inr [''Cannot create 1 AMD instances, only 0 available.'']"
    by code_simp
  note t = violations_returned_by_gcp_raised_by_oci
  from 1 t [where r = "''europe-west1''" and mt = "''e2-micro''" and d = 20 and paid = False]
  have a: "validate_command ''europe-west1'' ''e2-micro'' 20 False = 1" by simp
  from 2 t [where r = "''us-central1''" and d = 20 and paid = False]
  have b: "deploy_stops ''us-central1'' 20 False = False" by simp
  from 3 t [where self = two_amd and planned = one_more_amd]
  have c: "validate_proposed_config_oci two_amd one_more_amd =
       Inl (ClickException (''Free Tier validation failed:'' @ [CHR 0x0A]
                            @ ''- Cannot create 1 AMD instances, only 0 available.''))"
    by simp
  from a b 3 c show ?thesis by (intro conjI)
qed

text \<open>Claim C8 as stated fails for the OCI validator: five AMD instances on a fresh
  account are answered with an exception that carries both violations, not with a
  returned list.\<close>

theorem oci_validator_raises:
  "validate_proposed_config_oci fresh five_amd =
     Inl (ClickException (''Free Tier validation failed:'' @ [CHR 0x0A]
                          @ ''- Cannot create 5 AMD instances, only 2 available.'' @ [CHR 0x0A]
                          @ ''- Cannot use 250GB storage, only 200GB available.''))"
  by code_simp

section \<open>The planners\<close>

lemma plan_from_existing_lengths:
  assumes "plan_from_existing self res = Inr p"
  shows "list_lengths_agree p"
proof -
  from assms obtain ocpus memory where
    o: "traverse (\<lambda>e. int_field e 5) (values_of (arm_instances res)) = Inr ocpus"
    and m: "traverse (\<lambda>e. int_field e 6) (values_of (arm_instances res)) = Inr memory"
    unfolding plan_from_existing_def Let_def by (auto simp: and_then_eq_Inr)
  from traverse_length [OF o] traverse_length [OF m] assms o m show ?thesis
    by (auto simp: plan_from_existing_def Let_def traverse_field_0 values_of_def
        list_lengths_agree_def split: if_splits)
qed





text \<open>Records that lack the fields make the planner raise: the inventory of the
  repository's test fixture holds bare names.\<close>

lemma bare_names_make_the_planner_raise:
  "plan_from_existing test_fixture (resources test_fixture) = Inl IndexError"
  by code_simp

lemma plan_maximum_eq:
  assumes "available_resources self = Inr (a, c, m, s)"
  shows "plan_maximum self = Inr
     \<lparr> amd_micro_instance_count = max 0 a,
       amd_micro_boot_volume_size_gb = 50,
       amd_micro_hostnames = map (\<lambda>i. ''amd-instance-'' @ str_int i) [1..max 0 a],
       amd_block_volume_size_gb = 0,
       arm_flex_instance_count = (if has_arm_image self \<and> 0 < c then 1 else 0),
       arm_flex_ocpus_per_instance = (if has_arm_image self \<and> 0 < c then [c] else []),
       arm_flex_memory_per_instance = (if has_arm_image self \<and> 0 < c then [m] else []),
       arm_flex_boot_volume_size_gb =
         (if has_arm_image self \<and> 0 < c then [max 47 (s - max 0 a * 50)] else []),
       arm_flex_hostnames = (if has_arm_image self \<and> 0 < c then [''arm-instance-1''] else []),
       arm_block_volume_sizes = (if has_arm_image self \<and> 0 < c then [0] else []) \<rparr>"
  using assms by (simp add: plan_maximum_def Let_def FREE_TIER_MIN_BOOT_VOLUME_GB_def)

lemma plan_maximum_lengths:
  assumes "plan_maximum self = Inr p"
  shows "list_lengths_agree p"
proof -
  from assms obtain a c m s where av: "available_resources self = Inr (a, c, m, s)"
    unfolding plan_maximum_def by (cases "available_resources self") auto
  from assms show ?thesis
    unfolding plan_maximum_eq [OF av] by (auto simp: list_lengths_agree_def)
qed

text \<open>
  \<^bold>\<open>Claim C4, as the code has it.\<close>  With \<open>a\<close> AMD instances, \<open>c\<close> OCPUs, \<open>m\<close> GB of memory
  and \<open>s\<close> GB of storage remaining, the maximum planner plans \<open>max(0, a)\<close> AMD instances
  with 50 GB boot volumes and, exactly when an ARM image is available and \<open>c > 0\<close>, one
  flexible instance with \<open>c\<close> OCPUs, \<open>m\<close> GB and a boot volume of
  \<open>max(47, s - 50 * max(0, a))\<close> GB.  The plan passes the validator exactly when no class is
  already over its cap, at most two VCNs exist and the storage suffices (at least 47 GB
  are left after the AMD boot volumes when the flexible instance is planned).  No plan
  that passes the validator has more AMD instances, nor, when the flexible instance is
  planned, more OCPUs, memory or storage.
\<close>

theorem plan_maximum_takes_all_remaining:
  assumes "available_resources self = Inr (a, c, m, s)"
  shows "\<exists>p. plan_maximum self = Inr p
     \<and> list_lengths_agree p
     \<and> amd_micro_instance_count p = max 0 a
     \<and> amd_micro_boot_volume_size_gb p = 50
     \<and> amd_block_volume_size_gb p = 0
     \<and> length (amd_micro_hostnames p) = nat (max 0 a)
     \<and> (if has_arm_image self \<and> 0 < c
         then arm_flex_instance_count p = 1
            \<and> arm_flex_ocpus_per_instance p = [c]
            \<and> arm_flex_memory_per_instance p = [m]
            \<and> arm_flex_boot_volume_size_gb p = [max 47 (s - 50 * max 0 a)]
            \<and> arm_block_volume_sizes p = [0]
         else arm_flex_instance_count p = 0
            \<and> arm_flex_ocpus_per_instance p = []
            \<and> arm_flex_memory_per_instance p = []
            \<and> arm_flex_boot_volume_size_gb p = []
            \<and> arm_block_volume_sizes p = [])
     \<and> (validate_proposed_config_oci self p = Inr ()) =
         (0 \<le> a \<and> length (vcns (resources self)) \<le> 2
          \<and> (if has_arm_image self \<and> 0 < c then 47 \<le> s - 50 * a
              else 0 \<le> c \<and> 0 \<le> m \<and> 50 * a \<le> s))
     \<and> (\<forall>other. validate_proposed_config_oci self other = Inr () \<longrightarrow>
           amd_micro_instance_count other \<le> amd_micro_instance_count p
           \<and> (has_arm_image self \<and> 0 < c \<longrightarrow>
                proposed_arm_ocpus other \<le> proposed_arm_ocpus p
              \<and> proposed_arm_memory other \<le> proposed_arm_memory p
              \<and> proposed_storage other \<le> proposed_storage p))"
proof -
  let ?p = "\<lparr> amd_micro_instance_count = max 0 a,
       amd_micro_boot_volume_size_gb = 50,
       amd_micro_hostnames = map (\<lambda>i. ''amd-instance-'' @ str_int i) [1..max 0 a],
       amd_block_volume_size_gb = 0,
       arm_flex_instance_count = (if has_arm_image self \<and> 0 < c then 1 else 0),
       arm_flex_ocpus_per_instance = (if has_arm_image self \<and> 0 < c then [c] else []),
       arm_flex_memory_per_instance = (if has_arm_image self \<and> 0 < c then [m] else []),
       arm_flex_boot_volume_size_gb =
         (if has_arm_image self \<and> 0 < c then [max 47 (s - max 0 a * 50)] else []),
       arm_flex_hostnames = (if has_arm_image self \<and> 0 < c then [''arm-instance-1''] else []),
       arm_block_volume_sizes = (if has_arm_image self \<and> 0 < c then [0] else []) \<rparr>"
  have pm: "plan_maximum self = Inr ?p" by (rule plan_maximum_eq [OF assms])
  have ll: "list_lengths_agree ?p" by (rule plan_maximum_lengths [OF pm])
  have fields: "amd_micro_instance_count ?p = max 0 a \<and> amd_micro_boot_volume_size_gb ?p = 50
     \<and> amd_block_volume_size_gb ?p = 0 \<and> length (amd_micro_hostnames ?p) = nat (max 0 a)"
    by simp
  have flex: "(if has_arm_image self \<and> 0 < c
         then arm_flex_instance_count ?p = 1
            \<and> arm_flex_ocpus_per_instance ?p = [c]
            \<and> arm_flex_memory_per_instance ?p = [m]
            \<and> arm_flex_boot_volume_size_gb ?p = [max 47 (s - 50 * max 0 a)]
            \<and> arm_block_volume_sizes ?p = [0]
         else arm_flex_instance_count ?p = 0
            \<and> arm_flex_ocpus_per_instance ?p = []
            \<and> arm_flex_memory_per_instance ?p = []
            \<and> arm_flex_boot_volume_size_gb ?p = []
            \<and> arm_block_volume_sizes ?p = [])"
    by (simp add: mult.commute)
  have pass: "(validate_proposed_config_oci self ?p = Inr ()) =
         (0 \<le> a \<and> length (vcns (resources self)) \<le> 2
          \<and> (if has_arm_image self \<and> 0 < c then 47 \<le> s - 50 * a
              else 0 \<le> c \<and> 0 \<le> m \<and> 50 * a \<le> s))"
    unfolding validate_oci_passes_iff [OF assms]
    by (auto simp: proposed_arm_ocpus_def proposed_arm_memory_def proposed_storage_def)
  have top: "\<forall>other. validate_proposed_config_oci self other = Inr () \<longrightarrow>
           amd_micro_instance_count other \<le> amd_micro_instance_count ?p
           \<and> (has_arm_image self \<and> 0 < c \<longrightarrow>
                proposed_arm_ocpus other \<le> proposed_arm_ocpus ?p
              \<and> proposed_arm_memory other \<le> proposed_arm_memory ?p
              \<and> proposed_storage other \<le> proposed_storage ?p)"
    unfolding validate_oci_passes_iff [OF assms]
    by (auto simp: proposed_arm_ocpus_def proposed_arm_memory_def proposed_storage_def)
  from pm ll fields flex pass top show ?thesis
    by (intro exI [of _ ?p] conjI) blast+
qed

text \<open>A fresh account: two AMD instances and one flexible instance with 4 OCPUs, 24 GB
  and the 100 GB that the AMD boot volumes leave; the validator accepts the plan.\<close>

theorem plan_maximum_takes_all_remaining_witness:
  "available_resources fresh = Inr (2, 4, 24, 200)
   \<and> plan_maximum fresh = Inr maximum_fresh
   \<and> amd_micro_instance_count maximum_fresh = 2
   \<and> arm_flex_instance_count maximum_fresh = 1
   \<and> arm_flex_ocpus_per_instance maximum_fresh = [4]
   \<and> arm_flex_memory_per_instance maximum_fresh = [24]
   \<and> arm_flex_boot_volume_size_gb maximum_fresh = [100]
   \<and> validate_proposed_config_oci fresh maximum_fresh = Inr ()"
proof -
  have i: "has_arm_image fresh" by (simp add: has_arm_image_def fresh_def arm_ctx_def)
  have v: "length (vcns (resources fresh)) \<le> 2" by (simp add: fresh_def no_resources_def)
  have r: "plan_maximum fresh = Inr maximum_fresh" by code_simp
  from plan_maximum_takes_all_remaining [OF fresh_available] r i v
  have "amd_micro_instance_count maximum_fresh = 2
   \<and> arm_flex_instance_count maximum_fresh = 1
   \<and> arm_flex_ocpus_per_instance maximum_fresh = [4]
   \<and> arm_flex_memory_per_instance maximum_fresh = [24]
   \<and> arm_flex_boot_volume_size_gb maximum_fresh = [100]
   \<and> validate_proposed_config_oci fresh maximum_fresh = Inr ()"
    by auto
  with fresh_available r show ?thesis by (intro conjI) simp_all
qed

text \<open>Claim C4 as stated fails: when the existing boot volume takes all 200 GB, the
  maximum plan still holds two AMD boot volumes and a 47 GB ARM boot volume, 147 GB where
  0 GB remain, and the validator refuses it.\<close>

theorem plan_maximum_can_exceed_storage:
  "available_resources storage_used_up = Inr (2, 3, 18, 0)
   \<and> plan_maximum storage_used_up = Inr maximum_without_storage
   \<and> proposed_storage maximum_without_storage = 147
   \<and> validate_proposed_config_oci storage_used_up maximum_without_storage =
       Inl (ClickException (''Free Tier validation failed:'' @ [CHR 0x0A]
                            @ ''- Cannot use 147GB storage, only 0GB available.''))"
proof (intro conjI)
  show "available_resources storage_used_up = Inr (2, 3, 18, 0)" by code_simp
  show "plan_maximum storage_used_up = Inr maximum_without_storage" by code_simp
  show "proposed_storage maximum_without_storage = 147"
    by (simp add: proposed_storage_def maximum_without_storage_def)
  show "validate_proposed_config_oci storage_used_up maximum_without_storage =
       Inl (ClickException (''Free Tier validation failed:'' @ [CHR 0x0A]
                            @ ''- Cannot use 147GB storage, only 0GB available.''))"
    by code_simp
qed

lemma prompt_int_range:
  "prompt_int lo hi dflt inp = Inr (n, rest) \<Longrightarrow> lo \<le> n \<and> n \<le> hi"
  by (induction inp) (auto split: option.splits if_splits)

lemma upto_length: "length [1..n] = nat n"
  by simp

lemma prompt_amd_hosts_length:
  "prompt_amd_hosts is inp = Inr (hs, rest) \<Longrightarrow> length hs = length is"
  by (induction "is" arbitrary: inp hs rest) (auto simp: and_then_eq_Inr)

lemma arm_loop_inv:
  "arm_loop is vs inp = Inr (vs', rest) \<Longrightarrow>
     \<exists>os ms bs hs.
        arm_ocpus vs' = arm_ocpus vs @ os \<and> arm_memory vs' = arm_memory vs @ ms
      \<and> arm_boot vs' = arm_boot vs @ bs \<and> arm_hosts vs' = arm_hosts vs @ hs
      \<and> arm_blocks vs' = arm_blocks vs @ replicate (length is) 0
      \<and> length os = length is \<and> length ms = length is
      \<and> length bs = length is \<and> length hs = length is
      \<and> within_budget (rem_ocpus vs) (rem_memory vs) (zip os ms)"
proof (induction "is" arbitrary: vs inp)
  case Nil
  then show ?case by simp
next
  case (Cons i rest')
  from Cons.prems obtain host inp1 ocpu inp2 mem inp3 boot inp4 where
    h: "prompt_str (''arm-instance-'' @ str_int i) inp = Inr (host, inp1)"
    and o: "prompt_int 1 (max 1 (rem_ocpus vs)) (max 1 (rem_ocpus vs)) inp1 = Inr (ocpu, inp2)"
    and m: "prompt_int 1 (max 1 (min (rem_memory vs) (ocpu * 6))) (max 1 (min (rem_memory vs) (ocpu * 6))) inp2 = Inr (mem, inp3)"
    and b: "prompt_int 50 200 50 inp3 = Inr (boot, inp4)"
    and r: "arm_loop rest'
       \<lparr> rem_ocpus = rem_ocpus vs - ocpu, rem_memory = rem_memory vs - mem,
         arm_ocpus = arm_ocpus vs @ [ocpu], arm_memory = arm_memory vs @ [mem],
         arm_boot = arm_boot vs @ [boot], arm_hosts = arm_hosts vs @ [host],
         arm_blocks = arm_blocks vs @ [0] \<rparr> inp4 = Inr (vs', rest)"
    by (auto simp: and_then_eq_Inr Let_def)
  from Cons.IH [OF r] obtain os ms bs hs where
    ih: "arm_ocpus vs' = (arm_ocpus vs @ [ocpu]) @ os" "arm_memory vs' = (arm_memory vs @ [mem]) @ ms"
      "arm_boot vs' = (arm_boot vs @ [boot]) @ bs" "arm_hosts vs' = (arm_hosts vs @ [host]) @ hs"
      "arm_blocks vs' = (arm_blocks vs @ [0]) @ replicate (length rest') 0"
      "length os = length rest'" "length ms = length rest'"
      "length bs = length rest'" "length hs = length rest'"
      "within_budget (rem_ocpus vs - ocpu) (rem_memory vs - mem) (zip os ms)"
    by auto
  from prompt_int_range [OF o] prompt_int_range [OF m] ih
  show ?case
    by (intro exI [of _ "ocpu # os"] exI [of _ "mem # ms"] exI [of _ "boot # bs"]
        exI [of _ "host # hs"]) (simp add: replicate_app_Cons_same)
qed

lemma within_budget_each:
  "within_budget ro rm xs \<Longrightarrow> (ocpu, mem) \<in> set xs \<Longrightarrow> 1 \<le> ocpu \<and> 1 \<le> mem \<and> mem \<le> 6 * ocpu"
  by (induction ro rm xs rule: within_budget.induct) auto

lemma within_budget_ocpus_exact:
  "within_budget ro rm xs \<Longrightarrow> budget_lasts ro (map fst xs) \<Longrightarrow> sum_list (map fst xs) \<le> max 0 ro"
  by (induction ro rm xs rule: within_budget.induct) auto

lemma within_budget_memory_exact:
  "within_budget ro rm xs \<Longrightarrow> budget_lasts rm (map snd xs) \<Longrightarrow> sum_list (map snd xs) \<le> max 0 rm"
  by (induction ro rm xs rule: within_budget.induct) auto

lemma within_budget_ocpus_bound:
  "within_budget ro rm xs \<Longrightarrow> sum_list (map fst xs) \<le> int (length xs) + max (ro - 1) 0"
  by (induction ro rm xs rule: within_budget.induct) auto

lemma within_budget_memory_bound:
  "within_budget ro rm xs \<Longrightarrow> sum_list (map snd xs) \<le> int (length xs) + max (rm - 1) 0"
  by (induction ro rm xs rule: within_budget.induct) auto

lemma plan_custom_shape:
  assumes av: "available_resources self = Inr (a, c, m, s)"
    and pc: "plan_custom self ctx inp = Inr (p, rest)"
  shows "0 \<le> amd_micro_instance_count p \<and> amd_micro_instance_count p \<le> max 0 a
     \<and> int (length (amd_micro_hostnames p)) = amd_micro_instance_count p
     \<and> list_lengths_agree p
     \<and> 0 \<le> arm_flex_instance_count p \<and> arm_flex_instance_count p \<le> 4
     \<and> within_budget c m (zip (arm_flex_ocpus_per_instance p) (arm_flex_memory_per_instance p))"
proof -
  from pc av obtain amd_count inp1 amd_boot inp2 amd_hosts inp3 arm_count vs inp5 where
    n: "prompt_int 0 (max 0 a) 0 inp = Inr (amd_count, inp1)"
    and hs: "prompt_amd_hosts [1..amd_count] inp2 = Inr (amd_hosts, inp3)"
    and arm: "(if truthy (ubuntu_arm_image_ocid ctx) \<and> c > 0 then
          and_then (prompt_int 0 FREE_TIER_MAX_ARM_INSTANCES 1 inp3) (\<lambda>(arm_count, inp4).
          and_then
            (arm_loop [1..arm_count]
               \<lparr> rem_ocpus = c, rem_memory = m,
                 arm_ocpus = [], arm_memory = [], arm_boot = [], arm_hosts = [], arm_blocks = [] \<rparr>
               inp4)
            (\<lambda>(vs, inp5). Inr (arm_count, vs, inp5)))
        else
          Inr (0, \<lparr> rem_ocpus = c, rem_memory = m,
                    arm_ocpus = [], arm_memory = [], arm_boot = [], arm_hosts = [], arm_blocks = [] \<rparr>,
               inp3)) = Inr (arm_count, vs, inp5)"
    and p: "p = \<lparr> amd_micro_instance_count = amd_count,
                 amd_micro_boot_volume_size_gb = amd_boot,
                 amd_micro_hostnames = amd_hosts,
                 amd_block_volume_size_gb = 0,
                 arm_flex_instance_count = arm_count,
                 arm_flex_ocpus_per_instance = arm_ocpus vs,
                 arm_flex_memory_per_instance = arm_memory vs,
                 arm_flex_boot_volume_size_gb = arm_boot vs,
                 arm_flex_hostnames = arm_hosts vs,
                 arm_block_volume_sizes = arm_blocks vs \<rparr>"
    unfolding plan_custom_def by (auto simp: and_then_eq_Inr)
  have amd: "0 \<le> amd_count \<and> amd_count \<le> max 0 a"
    using prompt_int_range [OF n] .
  have hl: "int (length amd_hosts) = amd_count"
    using prompt_amd_hosts_length [OF hs] amd by simp
  have armp: "0 \<le> arm_count \<and> arm_count \<le> 4
      \<and> int (length (arm_ocpus vs)) = arm_count \<and> int (length (arm_memory vs)) = arm_count
      \<and> int (length (arm_boot vs)) = arm_count \<and> int (length (arm_hosts vs)) = arm_count
      \<and> int (length (arm_blocks vs)) = arm_count
      \<and> within_budget c m (zip (arm_ocpus vs) (arm_memory vs))"
  proof (cases "truthy (ubuntu_arm_image_ocid ctx) \<and> c > 0")
    case False
    with arm show ?thesis by auto
  next
    case True
    with arm obtain inp4 where
      k: "prompt_int 0 FREE_TIER_MAX_ARM_INSTANCES 1 inp3 = Inr (arm_count, inp4)"
      and l: "arm_loop [1..arm_count]
               \<lparr> rem_ocpus = c, rem_memory = m,
                 arm_ocpus = [], arm_memory = [], arm_boot = [], arm_hosts = [], arm_blocks = [] \<rparr>
               inp4 = Inr (vs, inp5)"
      by (auto simp: and_then_eq_Inr)
    from prompt_int_range [OF k] have r: "0 \<le> arm_count \<and> arm_count \<le> 4"
      by (simp add: FREE_TIER_MAX_ARM_INSTANCES_def)
    from arm_loop_inv [OF l] r show ?thesis by auto
  qed
  from amd hl armp show ?thesis
    unfolding p list_lengths_agree_def by simp
qed

lemma plan_custom_available:
  "plan_custom self ctx inp = Inr x \<Longrightarrow> \<exists>a c m s. available_resources self = Inr (a, c, m, s)"
  unfolding plan_custom_def by (cases "available_resources self") auto

lemma plan_custom_arm_needs_budget:
  assumes av: "available_resources self = Inr (a, c, m, s)"
    and pc: "plan_custom self ctx inp = Inr (p, rest)"
    and n: "0 < arm_flex_instance_count p"
  shows "0 < c"
proof (rule ccontr)
  assume "\<not> 0 < c"
  with pc av have "arm_flex_instance_count p = 0"
    unfolding plan_custom_def by (auto simp: and_then_eq_Inr)
  with n show False by simp
qed

text \<open>
  \<^bold>\<open>Claim C3, as the code has it.\<close>  Let \<open>a\<close>, \<open>c\<close> and \<open>m\<close> be the AMD instances, the OCPUs
  and the memory that \<open>_available_resources\<close> finds remaining (cap minus used).  Whatever
  the user types, a plan the custom planner returns has an AMD count between 0 and
  \<open>max(0, a)\<close> and between 0 and 4 ARM instances; each ARM instance gets at least 1 OCPU
  and at most \<open>max(1, OCPUs left)\<close>, at least 1 GB and at most
  \<open>max(1, min(memory left, 6 * its OCPUs))\<close>, where what is left is \<open>c\<close> and \<open>m\<close> minus what
  the earlier instances of the session took; so its memory is at most 6 times its OCPUs.
  The OCPU sum is at most \<open>max(0, c)\<close> and the memory sum at most \<open>max(0, m)\<close> as long as
  some budget is left before each instance is specified.  In general, with \<open>n\<close> ARM
  instances planned, the OCPU sum is at most \<open>n + max(c - 1, 0)\<close>, which is \<open>c + n - 1\<close>
  when \<open>n > 0\<close> (ARM instances are planned only when \<open>c > 0\<close>), and the memory sum is at most
  \<open>n + max(m - 1, 0)\<close>.
\<close>

theorem plan_custom_respects_prompt_bounds:
  assumes "available_resources self = Inr (a, c, m, s)"
    and "plan_custom self ctx inp = Inr (p, rest)"
  shows "0 \<le> amd_micro_instance_count p \<and> amd_micro_instance_count p \<le> max 0 a
     \<and> 0 \<le> arm_flex_instance_count p \<and> arm_flex_instance_count p \<le> 4
     \<and> list_lengths_agree p
     \<and> within_budget c m (zip (arm_flex_ocpus_per_instance p) (arm_flex_memory_per_instance p))
     \<and> list_all2 (\<lambda>ocpu mem. 1 \<le> ocpu \<and> 1 \<le> mem \<and> mem \<le> 6 * ocpu)
          (arm_flex_ocpus_per_instance p) (arm_flex_memory_per_instance p)
     \<and> (budget_lasts c (arm_flex_ocpus_per_instance p)
          \<longrightarrow> sum_list (arm_flex_ocpus_per_instance p) \<le> max 0 c)
     \<and> (budget_lasts m (arm_flex_memory_per_instance p)
          \<longrightarrow> sum_list (arm_flex_memory_per_instance p) \<le> max 0 m)
     \<and> sum_list (arm_flex_ocpus_per_instance p) \<le> arm_flex_instance_count p + max (c - 1) 0
     \<and> sum_list (arm_flex_memory_per_instance p) \<le> arm_flex_instance_count p + max (m - 1) 0
     \<and> (0 < arm_flex_instance_count p \<longrightarrow>
          0 < c \<and> sum_list (arm_flex_ocpus_per_instance p) \<le> c + arm_flex_instance_count p - 1)"
proof -
  let ?os = "arm_flex_ocpus_per_instance p" and ?ms = "arm_flex_memory_per_instance p"
  note sh = plan_custom_shape [OF assms]
  then have ll: "list_lengths_agree p" and wb: "within_budget c m (zip ?os ?ms)"
    by simp_all
  from ll have len: "length ?os = length ?ms" "int (length ?os) = arm_flex_instance_count p"
    by (simp_all add: list_lengths_agree_def)
  then have fs: "map fst (zip ?os ?ms) = ?os" "map snd (zip ?os ?ms) = ?ms"
    "int (length (zip ?os ?ms)) = arm_flex_instance_count p"
    by simp_all
  have each: "list_all2 (\<lambda>ocpu mem. 1 \<le> ocpu \<and> 1 \<le> mem \<and> mem \<le> 6 * ocpu) ?os ?ms"
    unfolding list_all2_iff using len(1) within_budget_each [OF wb] by auto
  have eo: "budget_lasts c ?os \<longrightarrow> sum_list ?os \<le> max 0 c"
    using within_budget_ocpus_exact [OF wb] fs by simp
  have em: "budget_lasts m ?ms \<longrightarrow> sum_list ?ms \<le> max 0 m"
    using within_budget_memory_exact [OF wb] fs by simp
  have bo: "sum_list ?os \<le> arm_flex_instance_count p + max (c - 1) 0"
    using within_budget_ocpus_bound [OF wb] fs by simp
  have bm: "sum_list ?ms \<le> arm_flex_instance_count p + max (m - 1) 0"
    using within_budget_memory_bound [OF wb] fs by simp
  have nb: "0 < arm_flex_instance_count p \<longrightarrow>
          0 < c \<and> sum_list ?os \<le> c + arm_flex_instance_count p - 1"
    using plan_custom_arm_needs_budget [OF assms] bo by auto
  from sh each eo em bo bm nb show ?thesis by simp
qed

text \<open>The careful session on a fresh account: 1 AMD instance, 4 of 4 OCPUs, 24 of 24 GB.\<close>

theorem plan_custom_respects_prompt_bounds_witness:
  "available_resources fresh = Inr (2, 4, 24, 200)
   \<and> plan_custom fresh arm_ctx careful_answers = Inr (careful_plan, [])
   \<and> budget_lasts 4 (arm_flex_ocpus_per_instance careful_plan)
   \<and> budget_lasts 24 (arm_flex_memory_per_instance careful_plan)
   \<and> amd_micro_instance_count careful_plan \<le> 2
   \<and> sum_list (arm_flex_ocpus_per_instance careful_plan) \<le> 4
   \<and> sum_list (arm_flex_memory_per_instance careful_plan) \<le> 24"
proof -
  have r: "plan_custom fresh arm_ctx careful_answers = Inr (careful_plan, [])" by code_simp
  have bo: "budget_lasts 4 (arm_flex_ocpus_per_instance careful_plan)"
    by (simp add: careful_plan_def)
  have bm: "budget_lasts 24 (arm_flex_memory_per_instance careful_plan)"
    by (simp add: careful_plan_def)
  from bo bm plan_custom_respects_prompt_bounds [OF fresh_available r]
  have "amd_micro_instance_count careful_plan \<le> 2
     \<and> sum_list (arm_flex_ocpus_per_instance careful_plan) \<le> 4
     \<and> sum_list (arm_flex_memory_per_instance careful_plan) \<le> 24"
    by simp
  with fresh_available r bo bm show ?thesis by (intro conjI) simp_all
qed

text \<open>Claim C3 as stated fails: on a fresh account the prompts accept a first ARM instance
  with all 4 OCPUs and 24 GB and then a second one, which gets 1 OCPU and 1 GB although
  nothing is left; the plan asks for 5 OCPUs and 25 GB.\<close>

theorem plan_custom_can_exceed_remaining:
  "available_resources fresh = Inr (2, 4, 24, 200)
   \<and> plan_custom fresh arm_ctx greedy_answers = Inr (greedy_plan, [])
   \<and> sum_list (arm_flex_ocpus_per_instance greedy_plan) = 5
   \<and> sum_list (arm_flex_memory_per_instance greedy_plan) = 25
   \<and> \<not> sum_list (arm_flex_ocpus_per_instance greedy_plan) \<le> FREE_TIER_MAX_ARM_OCPUS - 0
   \<and> \<not> sum_list (arm_flex_memory_per_instance greedy_plan) \<le> FREE_TIER_MAX_ARM_MEMORY_GB - 0"
proof -
  have r: "plan_custom fresh arm_ctx greedy_answers = Inr (greedy_plan, [])" by code_simp
  with fresh_available show ?thesis
    by (simp add: greedy_plan_def FREE_TIER_MAX_ARM_OCPUS_def FREE_TIER_MAX_ARM_MEMORY_GB_def)
qed

section \<open>The rendered variables file\<close>

lemma lines_newline_free:
  assumes "single_lines generated ctx planned"
  shows "list_all newline_free (variables_tf_lines generated ctx planned)"
  using assms
  by (simp add: variables_tf_lines_def single_lines_def newline_free_q)

lemma rendered_lines:
  assumes "single_lines generated ctx planned"
  shows "split (CHR 0x0A) (render_variables_tf generated ctx planned)
           = variables_tf_lines generated ctx planned @ [[]]"
  unfolding render_variables_tf_def by (rule split_lines [OF lines_newline_free [OF assms]])

lemma strip_prefix_same: "strip_prefix k (k @ v) = Some v"
  by (induction k) simp_all

lemma local_values:
  "local_value ''  amd_micro_instance_count      = '' (variables_tf_lines g ctx p @ [[]])
     = Some (str_int (amd_micro_instance_count p))"
  "local_value ''  amd_micro_boot_volume_size_gb = '' (variables_tf_lines g ctx p @ [[]])
     = Some (str_int (amd_micro_boot_volume_size_gb p))"
  "local_value ''  amd_block_volume_size_gb      = '' (variables_tf_lines g ctx p @ [[]])
     = Some (str_int (amd_block_volume_size_gb p))"
  "local_value ''  arm_flex_instance_count       = '' (variables_tf_lines g ctx p @ [[]])
     = Some (str_int (arm_flex_instance_count p))"
  "local_value ''  arm_flex_ocpus_per_instance   = '' (variables_tf_lines g ctx p @ [[]])
     = Some (nums (arm_flex_ocpus_per_instance p))"
  "local_value ''  arm_flex_memory_per_instance  = '' (variables_tf_lines g ctx p @ [[]])
     = Some (nums (arm_flex_memory_per_instance p))"
  "local_value ''  arm_flex_boot_volume_size_gb  = '' (variables_tf_lines g ctx p @ [[]])
     = Some (nums (arm_flex_boot_volume_size_gb p))"
  "local_value ''  arm_block_volume_sizes        = '' (variables_tf_lines g ctx p @ [[]])
     = Some (nums (arm_block_volume_sizes p))"
  by (simp_all add: variables_tf_lines_def)

lemma reparse_rendered:
  assumes "single_lines generated ctx planned"
  shows "reparse (render_variables_tf generated ctx planned) = Some (numbers_of planned)"
  unfolding reparse_def rendered_lines [OF assms] Let_def read_int_def read_nums_def local_values
  by (simp add: py_int_str_int parse_nums_nums numbers_of_def)

lemma lines_shape:
  "variables_tf_lines g ctx p =
     [''# Oracle Cloud Infrastructure Terraform Variables'', ''# Generated: '' @ g]
     @ drop 2 (variables_tf_lines [] ctx p)"
  by (simp add: variables_tf_lines_def)

lemma render_same_iff:
  "(render_variables_tf g ctx p = render_variables_tf g' ctx p) = (g = g')"
proof -
  have "render_variables_tf x ctx p =
      (''# Oracle Cloud Infrastructure Terraform Variables'' @ [CHR 0x0A] @ ''# Generated: '')
      @ x @ ([CHR 0x0A] @ concat (map (\<lambda>l. l @ [CHR 0x0A]) (drop 2 (variables_tf_lines [] ctx p))))"
    for x
    unfolding render_variables_tf_def by (subst lines_shape) simp
  then show ?thesis by (simp only: same_append_eq append_same_eq)
qed

text \<open>
  \<^bold>\<open>Claim C9, as the code has it.\<close>  The rendered text carries the reading of the clock in
  its second line, so two renders of the same plan are byte-identical exactly when they
  carry the same reading.  Reading the numeric literals (the two counts, the AMD boot and
  block sizes, the four ARM lists) back from the rendered text gives the values of the
  plan, provided the strings that are substituted into the text (clock reading, context
  identifiers, host names) contain no line feed.
\<close>

theorem rendered_numbers_read_back:
  "(single_lines generated ctx planned \<longrightarrow>
      reparse (render_variables_tf generated ctx planned) = Some (numbers_of planned))
   \<and> (render_variables_tf generated ctx planned = render_variables_tf generated' ctx planned)
       = (generated = generated')"
  using reparse_rendered render_same_iff by blast

theorem rendered_numbers_read_back_witness:
  "single_lines ''Thu Jan  1 00:00:00 1970'' arm_ctx careful_plan
   \<and> reparse (render_variables_tf ''Thu Jan  1 00:00:00 1970'' arm_ctx careful_plan)
       = Some \<lparr> n_amd_count = 1, n_amd_boot = 60, n_amd_block = 0, n_arm_count = 2,
                n_arm_ocpus = [2, 2], n_arm_memory = [12, 12], n_arm_boot = [70, 50],
                n_arm_blocks = [0, 0] \<rparr>"
proof -
  have s: "single_lines ''Thu Jan  1 00:00:00 1970'' arm_ctx careful_plan"
    by (simp add: single_lines_def arm_ctx_def careful_plan_def)
  have n: "numbers_of careful_plan = \<lparr> n_amd_count = 1, n_amd_boot = 60, n_amd_block = 0,
      n_arm_count = 2, n_arm_ocpus = [2, 2], n_arm_memory = [12, 12], n_arm_boot = [70, 50],
      n_arm_blocks = [0, 0] \<rparr>"
    by (simp add: numbers_of_def careful_plan_def)
  from s rendered_numbers_read_back
    [where generated = "''Thu Jan  1 00:00:00 1970''" and ctx = arm_ctx and planned = careful_plan]
  have "reparse (render_variables_tf ''Thu Jan  1 00:00:00 1970'' arm_ctx careful_plan)
       = Some (numbers_of careful_plan)"
    by blast
  with s n show ?thesis by simp
qed

text \<open>Claim C9 as stated fails: two renders of the same plan one second apart differ.\<close>

theorem renders_differ_in_time:
  "render_variables_tf ''Thu Jan  1 00:00:00 1970'' arm_ctx careful_plan
     \<noteq> render_variables_tf ''Thu Jan  1 00:00:01 1970'' arm_ctx careful_plan"
  by (simp add: render_same_iff)

text \<open>The proviso on line feeds is needed: a host name that contains a line of the
  template makes the reader find 7 where the plan says 0.\<close>

lemma line_feed_in_host_name_misleads:
  "reparse (render_variables_tf ''Thu Jan  1 00:00:00 1970'' arm_ctx
      (nothing_planned\<lparr> amd_micro_hostnames :=
          [''a'' @ [CHR 0x0A] @ ''  amd_block_volume_size_gb      = 7'' @ [CHR 0x0A]] \<rparr>))
   = Some ((numbers_of nothing_planned)\<lparr> n_amd_block := 7 \<rparr>)"
proof -
  let ?g = "''Thu Jan  1 00:00:00 1970''"
  let ?p = "nothing_planned\<lparr> amd_micro_hostnames :=
          [''a'' @ [CHR 0x0A] @ ''  amd_block_volume_size_gb      = 7'' @ [CHR 0x0A]] \<rparr>"
  let ?base = "variables_tf_lines ?g arm_ctx nothing_planned"
  let ?ls = "take 23 ?base
     @ [''  amd_micro_hostnames           = ['' @ [CHR 0x22] @ ''a'',
        ''  amd_block_volume_size_gb      = 7'', [CHR 0x22] @ '']'']
     @ drop 24 ?base"
  have r: "render_variables_tf ?g arm_ctx ?p = concat (map (\<lambda>l. l @ [CHR 0x0A]) ?ls)"
    by (simp add: render_variables_tf_def variables_tf_lines_def q_def nothing_planned_def)
  have nf: "list_all newline_free ?ls"
    by (simp add: variables_tf_lines_def arm_ctx_def nothing_planned_def q_def)
  have seven: "py_int ''7'' = Some 7" by code_simp
  have vals:
    "local_value ''  amd_micro_instance_count      = '' (?ls @ [[]]) = Some (str_int 0)"
    "local_value ''  amd_micro_boot_volume_size_gb = '' (?ls @ [[]]) = Some (str_int 50)"
    "local_value ''  amd_block_volume_size_gb      = '' (?ls @ [[]]) = Some ''7''"
    "local_value ''  arm_flex_instance_count       = '' (?ls @ [[]]) = Some (str_int 0)"
    "local_value ''  arm_flex_ocpus_per_instance   = '' (?ls @ [[]]) = Some (nums [])"
    "local_value ''  arm_flex_memory_per_instance  = '' (?ls @ [[]]) = Some (nums [])"
    "local_value ''  arm_flex_boot_volume_size_gb  = '' (?ls @ [[]]) = Some (nums [])"
    "local_value ''  arm_block_volume_sizes        = '' (?ls @ [[]]) = Some (nums [])"
    by (simp_all add: variables_tf_lines_def nothing_planned_def)
  show ?thesis
    unfolding reparse_def r split_lines [OF nf] Let_def read_int_def read_nums_def vals
    by (simp add: py_int_str_int parse_nums_nums seven numbers_of_def nothing_planned_def)
qed

section \<open>The list-length invariant\<close>

text \<open>
  \<^bold>\<open>Claim C7, as the code has it.\<close>  No assertion guards the list-length invariant.
  Every plan that one of the three planners returns satisfies it by construction; the
  validator does not look at the flexible instance count or at the host names, so a plan
  that breaks the invariant is validated like the plan with the count and names put
  right.
\<close>

theorem list_lengths_by_construction_unchecked:
  "(plan_from_existing self res = Inr p1 \<longrightarrow> list_lengths_agree p1)
   \<and> (plan_maximum self = Inr p2 \<longrightarrow> list_lengths_agree p2)
   \<and> (plan_custom self ctx inp = Inr (p3, rest) \<longrightarrow> list_lengths_agree p3)
   \<and> validate_proposed_config_oci self
        (p\<lparr> arm_flex_instance_count := n, arm_flex_hostnames := hs, amd_micro_hostnames := hs' \<rparr>)
      = validate_proposed_config_oci self p"
proof (intro conjI impI)
  assume "plan_from_existing self res = Inr p1"
  then show "list_lengths_agree p1" by (rule plan_from_existing_lengths)
next
  assume "plan_maximum self = Inr p2"
  then show "list_lengths_agree p2" by (rule plan_maximum_lengths)
next
  assume pc: "plan_custom self ctx inp = Inr (p3, rest)"
  from plan_custom_available [OF pc] obtain a c m s where
    "available_resources self = Inr (a, c, m, s)" by blast
  from plan_custom_shape [OF this pc] show "list_lengths_agree p3" by simp
next
  show "validate_proposed_config_oci self
        (p\<lparr> arm_flex_instance_count := n, arm_flex_hostnames := hs, amd_micro_hostnames := hs' \<rparr>)
      = validate_proposed_config_oci self p"
    by (rule validate_oci_ignores_count)
qed

theorem list_lengths_by_construction_unchecked_witness:
  "plan_from_existing two_amd (resources two_amd) = Inr existing_two_amd
   \<and> list_lengths_agree existing_two_amd
   \<and> plan_maximum fresh = Inr maximum_fresh
   \<and> list_lengths_agree maximum_fresh
   \<and> plan_custom fresh arm_ctx careful_answers = Inr (careful_plan, [])
   \<and> list_lengths_agree careful_plan
   \<and> validate_proposed_config_oci fresh
        (three_without_sizes\<lparr> arm_flex_instance_count := 1, arm_flex_hostnames := [''a''],
           amd_micro_hostnames := [] \<rparr>)
      = validate_proposed_config_oci fresh three_without_sizes"
proof -
  have 1: "plan_from_existing two_amd (resources two_amd) = Inr existing_two_amd" by code_simp
  have 2: "plan_maximum fresh = Inr maximum_fresh" by code_simp
  have 3: "plan_custom fresh arm_ctx careful_answers = Inr (careful_plan, [])" by code_simp
  note t = list_lengths_by_construction_unchecked
    [where self = two_amd and res = "resources two_amd" and ?p1.0 = existing_two_amd]
  note u = list_lengths_by_construction_unchecked
    [where self = fresh and ?p2.0 = maximum_fresh and ctx = arm_ctx and inp = careful_answers
        and ?p3.0 = careful_plan and rest = "[]" and p = three_without_sizes and n = 1
        and hs = "[''a'']" and hs' = "[]"]
  from 1 t have a: "list_lengths_agree existing_two_amd" by blast
  from 2 u have b: "list_lengths_agree maximum_fresh" by blast
  from 3 u have c: "list_lengths_agree careful_plan" by blast
  from u have d: "validate_proposed_config_oci fresh
        (three_without_sizes\<lparr> arm_flex_instance_count := 1, arm_flex_hostnames := [''a''],
           amd_micro_hostnames := [] \<rparr>)
      = validate_proposed_config_oci fresh three_without_sizes" by blast
  from 1 a 2 b 3 c d show ?thesis by (intro conjI)
qed

text \<open>Claim C7 as stated fails: a plan that announces three flexible instances and
  carries lists of lengths 0, 1, 0, 2 and 0 passes validation without any failure, and
  its rendering carries the count 3 beside the lists as they are.\<close>

theorem mismatched_lists_pass_validation:
  "\<not> list_lengths_agree three_without_sizes
   \<and> validate_proposed_config_oci fresh three_without_sizes = Inr ()
   \<and> reparse (render_variables_tf ''Thu Jan  1 00:00:00 1970'' arm_ctx three_without_sizes)
       = Some \<lparr> n_amd_count = 0, n_amd_boot = 50, n_amd_block = 0, n_arm_count = 3,
                n_arm_ocpus = [], n_arm_memory = [4], n_arm_boot = [], n_arm_blocks = [] \<rparr>"
proof (intro conjI)
  show "\<not> list_lengths_agree three_without_sizes"
    by (simp add: list_lengths_agree_def three_without_sizes_def)
  show "validate_proposed_config_oci fresh three_without_sizes = Inr ()"
    by code_simp
  have "single_lines ''Thu Jan  1 00:00:00 1970'' arm_ctx three_without_sizes"
    by (simp add: single_lines_def arm_ctx_def three_without_sizes_def)
  then show "reparse (render_variables_tf ''Thu Jan  1 00:00:00 1970'' arm_ctx three_without_sizes)
       = Some \<lparr> n_amd_count = 0, n_amd_boot = 50, n_amd_block = 0, n_arm_count = 3,
                n_arm_ocpus = [], n_arm_memory = [4], n_arm_boot = [], n_arm_blocks = [] \<rparr>"
    by (simp add: reparse_rendered numbers_of_def three_without_sizes_def)
qed

end
